theory Spec2Isabelle
  imports Complex_Main "HOL-Library.Sublist"
begin

section \<open>Conventions of the embedding\<close>

text \<open>
  The development embeds the job-description service of the repository
  (\<^verbatim>\<open>apps/ai-jd\<close>): the requirement extractor \<^verbatim>\<open>JDParserService\<close> and the
  candidate ranker \<^verbatim>\<open>CandidateMatcherService\<close>, with the pydantic models both
  construct.

  \<^item> A Python float is a real number. In the evaluation of a candidate (the weighted
    sum, its rounding and the bounds of \<^verbatim>\<open>Match\<close>) the floats are IEEE 754 doubles:
    every operation rounds its exact result to the nearest double, as the section on
    doubles defines it; infinities and NaN do not occur there, since all values lie
    between 0 and 300. The requirement extractor and the skill and recency scores
    compute over the exact reals: \<^verbatim>\<open>0.1\<close>, \<^verbatim>\<open>0.8\<close> or \<^verbatim>\<open>1.5\<close> are there the decimal
    numbers written in the source.
  \<^item> Python strings are modelled as \<^typ>\<open>string\<close> over ASCII: the regular expression
    class \<^verbatim>\<open>\w\<close> is \<^verbatim>\<open>[A-Za-z0-9_]\<close> and \<^verbatim>\<open>str.lower\<close> changes \<^verbatim>\<open>A-Z\<close> only.
  \<^item> Raising an exception is a value \<open>Inl e\<close> of a sum type; a constructor of a
    pydantic model whose fields carry \<^verbatim>\<open>ge\<close>/\<^verbatim>\<open>le\<close> bounds is a function that
    returns \<open>Inl ValidationError\<close> when a bound is violated.
  \<^item> A Python method \<^verbatim>\<open>_name\<close> is the constant \<open>name\<close>: an Isabelle identifier
    cannot begin with an underscore.
\<close>

datatype error = ValidationError | ValueError

subsection \<open>Floats\<close>

text \<open>
  \<open>round2 x\<close> is the multiple of \<^verbatim>\<open>0.01\<close> nearest to the real \<open>x\<close>, an exact tie
  resolved towards the even neighbour. Python's \<^verbatim>\<open>round(x, 2)\<close> takes a double \<open>x\<close>,
  rounds its exact value so, and returns the double nearest to the result: this is
  \<open>py_round2\<close> below.
\<close>

definition round_half_even :: "real \<Rightarrow> int" where
  "round_half_even y =
     (let f = \<lfloor>y\<rfloor>; d = y - of_int f
      in if d < 1 / 2 then f
         else if 1 / 2 < d then f + 1
         else if even f then f else f + 1)"

definition round2 :: "real \<Rightarrow> real" where
  "round2 x = of_int (round_half_even (x * 100)) / 100"

subsection \<open>Doubles\<close>

text \<open>
  A double is zero or \<open>m * 2 ^ (e - 52)\<close> with an integer \<open>m\<close>, \<open>2 ^ 52 \<le> \<bar>m\<bar> < 2 ^ 53\<close>
  and \<open>- 1022 \<le> e \<le> 1023\<close>, or a subnormal \<open>m * 2 ^ (- 1074)\<close> with \<open>\<bar>m\<bar> < 2 ^ 52\<close>.
  \<open>exponent x\<close> is the \<open>e\<close> with \<open>2 ^ e \<le> \<bar>x\<bar> < 2 ^ (e + 1)\<close>, found by halving or
  doubling at most as often as the range of a double needs; \<open>ulp x\<close> is the distance
  of the doubles around \<open>x\<close>; \<open>fl x\<close> is the double nearest to \<open>x\<close>, an exact tie
  resolved towards the even \<open>m\<close> (the rounding mode of Python), for \<open>\<bar>x\<bar> < 2 ^ 1024\<close>.
\<close>

definition pow2 :: "int \<Rightarrow> real" where
  "pow2 e = (if 0 \<le> e then 2 ^ nat e else 1 / 2 ^ nat (- e))"

primrec exponent_up :: "nat \<Rightarrow> real \<Rightarrow> int" where
  "exponent_up 0 x = 0"
| "exponent_up (Suc k) x = (if x < 2 then 0 else 1 + exponent_up k (x / 2))"

primrec exponent_down :: "nat \<Rightarrow> real \<Rightarrow> int" where
  "exponent_down 0 x = 0"
| "exponent_down (Suc k) x = (if 1 \<le> x then 0 else exponent_down k (x * 2) - 1)"

definition exponent :: "real \<Rightarrow> int" where
  "exponent x = (if 1 \<le> \<bar>x\<bar> then exponent_up 1024 \<bar>x\<bar> else exponent_down 1075 \<bar>x\<bar>)"

definition ulp :: "real \<Rightarrow> real" where
  "ulp x = pow2 (max (exponent x) (- 1022) - 52)"

definition fl :: "real \<Rightarrow> real" where
  "fl x = (if x = 0 then 0 else of_int (round_half_even (x / ulp x)) * ulp x)"


text \<open>
  The operations \<^verbatim>\<open>+\<close>, \<^verbatim>\<open>-\<close> and \<^verbatim>\<open>*\<close> on doubles return the double nearest to the
  exact result.
\<close>

definition fadd :: "real \<Rightarrow> real \<Rightarrow> real" where
  "fadd x y = fl (x + y)"

definition fsub :: "real \<Rightarrow> real \<Rightarrow> real" where
  "fsub x y = fl (x - y)"

definition fmul :: "real \<Rightarrow> real \<Rightarrow> real" where
  "fmul x y = fl (x * y)"

text \<open>\<^verbatim>\<open>round(x, 2)\<close> on a double \<open>x\<close>.\<close>

definition py_round2 :: "real \<Rightarrow> real" where
  "py_round2 x = fl (round2 x)"

subsection \<open>Strings\<close>

text \<open>The ASCII code of a character: \<^verbatim>\<open>A-Z\<close> is 65-90, \<^verbatim>\<open>a-z\<close> is 97-122, \<^verbatim>\<open>0-9\<close> is 48-57.\<close>

definition ord_char :: "char \<Rightarrow> nat" where
  "ord_char c = of_char c"

definition lower_char :: "char \<Rightarrow> char" where
  "lower_char c =
     (if 65 \<le> ord_char c \<and> ord_char c \<le> 90 then char_of (ord_char c + 32) else c)"

definition lower :: "string \<Rightarrow> string" where
  "lower s = map lower_char s"

text \<open>\<^verbatim>\<open>sub in s\<close> on strings: \<open>sub\<close> is a contiguous part of \<open>s\<close>.\<close>

fun contains :: "string \<Rightarrow> string \<Rightarrow> bool" where
  "contains sub [] = (sub = [])"
| "contains sub (c # cs) = (prefix sub (c # cs) \<or> contains sub cs)"

text \<open>\<^verbatim>\<open>s.find(sub)\<close>: the least index at which \<open>sub\<close> starts, \<open>-1\<close> when there is none.\<close>

fun find_from :: "string \<Rightarrow> string \<Rightarrow> int \<Rightarrow> int" where
  "find_from sub [] i = (if sub = [] then i else - 1)"
| "find_from sub (c # cs) i = (if prefix sub (c # cs) then i else find_from sub cs (i + 1))"

definition find_str :: "string \<Rightarrow> string \<Rightarrow> int" where
  "find_str s sub = find_from sub s 0"

text \<open>\<^verbatim>\<open>s[i:]\<close>: a negative index counts from the end of the string.\<close>

definition slice_from :: "'a list \<Rightarrow> int \<Rightarrow> 'a list" where
  "slice_from s i = (if i < 0 then drop (nat (int (length s) + i)) s else drop (nat i) s)"

text \<open>\<^verbatim>\<open>s[:k]\<close>: a negative bound leaves out that many elements at the end.\<close>

definition slice_to :: "'a list \<Rightarrow> int \<Rightarrow> 'a list" where
  "slice_to s k = (if k < 0 then take (nat (int (length s) + k)) s else take (nat k) s)"

subsection \<open>Whole-word matching\<close>

text \<open>
  The source searches with \<^verbatim>\<open>re.findall(r'\b' + re.escape(term) + r'\b', text)\<close>.
  The escaped term matches itself literally; \<^verbatim>\<open>\b\<close> holds at a position when exactly
  one of the characters before and after it is a word character (the ends of the text
  count as non-word). \<^verbatim>\<open>findall\<close> scans from left to right and resumes after the end
  of each match, so matches do not overlap.
\<close>

definition is_word_char :: "char \<Rightarrow> bool" where
  "is_word_char c \<longleftrightarrow>
     (97 \<le> ord_char c \<and> ord_char c \<le> 122) \<or> (65 \<le> ord_char c \<and> ord_char c \<le> 90) \<or>
     (48 \<le> ord_char c \<and> ord_char c \<le> 57) \<or> c = CHR ''_''"

definition is_word :: "char option \<Rightarrow> bool" where
  "is_word oc = (case oc of None \<Rightarrow> False | Some c \<Rightarrow> is_word_char c)"

definition word_boundary :: "char option \<Rightarrow> char option \<Rightarrow> bool" where
  "word_boundary l r \<longleftrightarrow> is_word l \<noteq> is_word r"

definition last_of :: "char option \<Rightarrow> string \<Rightarrow> char option" where
  "last_of prev p = (if p = [] then prev else Some (last p))"

definition first_of :: "string \<Rightarrow> char option" where
  "first_of s = (case s of [] \<Rightarrow> None | c # _ \<Rightarrow> Some c)"

text \<open>
  \<open>match_here p prev s\<close>: the pattern \<^verbatim>\<open>\bp\b\<close> matches at the start of \<open>s\<close>, where
  \<open>prev\<close> is the character of the text just before \<open>s\<close>.
\<close>

definition match_here :: "string \<Rightarrow> char option \<Rightarrow> string \<Rightarrow> bool" where
  "match_here p prev s \<longleftrightarrow>
     prefix p s \<and> word_boundary prev (first_of s) \<and>
     word_boundary (last_of prev p) (first_of (drop (length p) s))"

text \<open>
  \<open>scan p prev k s\<close> counts the matches in the rest \<open>s\<close> of the text; \<open>k\<close> is the number
  of characters still covered by the previous match, where no new match may start.
\<close>

fun scan :: "string \<Rightarrow> char option \<Rightarrow> nat \<Rightarrow> string \<Rightarrow> nat" where
  "scan p prev k [] = 0"
| "scan p prev k (c # cs) =
     (if k = 0 \<and> match_here p prev (c # cs)
      then Suc (scan p (Some c) (length p - 1) cs)
      else scan p (Some c) (k - 1) cs)"

definition findall_count :: "string \<Rightarrow> string \<Rightarrow> nat" where
  "findall_count term text = scan term None 0 text"


section \<open>Data model of the requirement extractor (\<^verbatim>\<open>models/jd_models.py\<close>)\<close>

datatype SeniorityLevel = JUNIOR | MID | SENIOR | LEAD | PRINCIPAL

text \<open>The members of the enumeration in their declared order, as iterating the class gives them.\<close>

definition SeniorityLevel_members :: "SeniorityLevel list" where
  "SeniorityLevel_members = [JUNIOR, MID, SENIOR, LEAD, PRINCIPAL]"

record Skill =
  name :: string
  weight :: real

text \<open>\<^verbatim>\<open>Skill(name=..., weight=...)\<close>: the field \<^verbatim>\<open>weight\<close> is declared with \<^verbatim>\<open>ge=0.0, le=1.0\<close>.\<close>

definition new_Skill :: "string \<Rightarrow> real \<Rightarrow> error + Skill" where
  "new_Skill n w =
     (if 0 \<le> w \<and> w \<le> 1 then Inr \<lparr>name = n, weight = w\<rparr> else Inl ValidationError)"

record JDParseRequest =
  job_description :: string
  parse_job_id :: "string option"

record JDParseResponse =
  skills :: "Skill list"
  soft_skills :: "string list"
  seniority_hint :: SeniorityLevel
  parsed_job_id :: "string option"

section \<open>The requirement extractor (\<^verbatim>\<open>services/jd_parser.py\<close>)\<close>

text \<open>
  The two vocabularies are Python sets, whose iteration order the language leaves open;
  they are listed here in the order of the source text. No theorem below depends on
  that order.
\<close>

definition technical_skills :: "string list" where
  "technical_skills =
    [''python'', ''java'', ''javascript'', ''typescript'', ''c++'', ''c#'', ''go'', ''rust'',
     ''php'', ''ruby'', ''swift'', ''kotlin'', ''scala'', ''r'', ''matlab'', ''sql'',
     ''html'', ''css'',
     ''react'', ''angular'', ''vue'', ''nodejs'', ''express'', ''django'', ''flask'',
     ''fastapi'', ''spring'', ''hibernate'', ''tensorflow'', ''pytorch'', ''keras'',
     ''scikit-learn'', ''pandas'', ''numpy'', ''matplotlib'', ''seaborn'',
     ''mysql'', ''postgresql'', ''mongodb'', ''redis'', ''elasticsearch'', ''cassandra'',
     ''oracle'', ''sqlite'', ''dynamodb'',
     ''aws'', ''azure'', ''gcp'', ''docker'', ''kubernetes'', ''jenkins'', ''gitlab'',
     ''github'', ''terraform'', ''ansible'', ''chef'', ''puppet'', ''nginx'', ''apache'',
     ''git'', ''linux'', ''unix'', ''bash'', ''powershell'', ''vim'', ''vscode'',
     ''intellij'', ''jira'', ''confluence'', ''slack'', ''teams'',
     ''agile'', ''scrum'', ''kanban'', ''devops'', ''ci/cd'', ''tdd'', ''bdd'',
     ''hadoop'', ''spark'', ''kafka'', ''airflow'', ''tableau'', ''powerbi'', ''looker'',
     ''etl'', ''data warehouse'', ''machine learning'', ''deep learning'', ''nlp'',
     ''ios'', ''android'', ''react native'', ''flutter'', ''xamarin'',
     ''cybersecurity'', ''penetration testing'', ''oauth'', ''jwt'', ''ssl'', ''tls'']"

definition soft_skills_vocabulary :: "string list" where
  "soft_skills_vocabulary =
    [''communication'', ''leadership'', ''teamwork'', ''problem solving'',
     ''critical thinking'', ''creativity'', ''adaptability'', ''time management'',
     ''project management'', ''analytical thinking'', ''attention to detail'',
     ''collaboration'', ''mentoring'', ''presentation'', ''negotiation'',
     ''customer service'', ''emotional intelligence'']"

fun seniority_keywords :: "SeniorityLevel \<Rightarrow> string list" where
  "seniority_keywords JUNIOR =
     [''junior'', ''entry level'', ''graduate'', ''intern'', ''0-2 years'', ''beginner'']"
| "seniority_keywords MID =
     [''mid level'', ''intermediate'', ''2-5 years'', ''3-5 years'', ''experienced'']"
| "seniority_keywords SENIOR =
     [''senior'', ''5+ years'', ''5-8 years'', ''expert'', ''advanced'']"
| "seniority_keywords LEAD =
     [''lead'', ''team lead'', ''tech lead'', ''technical lead'', ''manager'']"
| "seniority_keywords PRINCIPAL =
     [''principal'', ''architect'', ''staff'', ''distinguished'', ''10+ years'']"

subsection \<open>Technical skills\<close>

text \<open>
  The body of the loop of \<^verbatim>\<open>_extract_technical_skills\<close> for one term with
  \<open>frequency\<close> matches: the weight before it is rounded. The inner test of the source is
  \<^verbatim>\<open>skill in jd_text[jd_text.find('requirements'):] if 'requirements' in jd_text else jd_text\<close>;
  a conditional expression binds weaker than \<^verbatim>\<open>in\<close>, so without the word
  \<^verbatim>\<open>requirements\<close> the test is the truth value of \<^verbatim>\<open>jd_text\<close>, which is that the
  text is not empty.
\<close>

definition sections :: "string list" where
  "sections = [''requirements'', ''required'', ''must have'']"

definition skill_weight :: "string \<Rightarrow> string \<Rightarrow> nat \<Rightarrow> real" where
  "skill_weight jd_text skill frequency =
     (let weight = min (0.1 + real frequency * 0.1) 1.0
      in if list_ex (\<lambda>section. contains section jd_text) sections
         then if (if contains ''requirements'' jd_text
                  then contains skill (slice_from jd_text (find_str jd_text ''requirements''))
                  else jd_text \<noteq> [])
              then min (weight * 1.5) 1.0
              else weight
         else weight)"

text \<open>The loop: a term with at least one match appends a \<^verbatim>\<open>Skill\<close> with the rounded weight.\<close>

fun found_skills :: "string \<Rightarrow> string list \<Rightarrow> error + Skill list" where
  "found_skills jd_text [] = Inr []"
| "found_skills jd_text (skill # rest) =
     (let frequency = findall_count (lower skill) jd_text
      in if 0 < frequency
         then (case new_Skill skill (round2 (skill_weight jd_text skill frequency)) of
                 Inl e \<Rightarrow> Inl e
               | Inr s \<Rightarrow> (case found_skills jd_text rest of
                             Inl e \<Rightarrow> Inl e
                           | Inr found \<Rightarrow> Inr (s # found)))
         else found_skills jd_text rest)"

text \<open>
  \<^verbatim>\<open>list.sort(key=..., reverse=True)\<close> is a stable sort into descending order of the
  key: elements with equal keys keep their order. The stable sort of a list is unique,
  and \<^const>\<open>sort_key\<close> on the negated key is one.
\<close>

definition sort_reverse :: "('a \<Rightarrow> real) \<Rightarrow> 'a list \<Rightarrow> 'a list" where
  "sort_reverse key xs = sort_key (\<lambda>x. - key x) xs"

definition extract_technical_skills :: "string \<Rightarrow> error + Skill list" where
  "extract_technical_skills jd_text =
     (case found_skills jd_text technical_skills of
        Inl e \<Rightarrow> Inl e
      | Inr found \<Rightarrow> Inr (slice_to (sort_reverse weight found) 20))"

subsection \<open>Soft skills\<close>

text \<open>\<^verbatim>\<open>re.search\<close> finds a match exactly when \<^verbatim>\<open>re.findall\<close> finds at least one.\<close>

definition re_search :: "string \<Rightarrow> string \<Rightarrow> bool" where
  "re_search term text \<longleftrightarrow> 0 < findall_count term text"

definition extract_soft_skills :: "string \<Rightarrow> string list" where
  "extract_soft_skills jd_text =
     filter (\<lambda>skill. re_search (lower skill) jd_text) soft_skills_vocabulary"

subsection \<open>Seniority\<close>

text \<open>
  \<^verbatim>\<open>seniority_scores\<close> is a dictionary created with the entry 0 for each level, in the
  order of the enumeration. The iteration over \<^verbatim>\<open>seniority_keywords\<close> then adds to the
  entry of a level the number of matches of each of its keywords, which makes the entry
  \<open>level_score\<close>; it changes no key, so the items of the dictionary stay in the order of
  the enumeration.
\<close>

definition level_score :: "string \<Rightarrow> SeniorityLevel \<Rightarrow> nat" where
  "level_score jd_text level =
     sum_list (map (\<lambda>keyword. findall_count (lower keyword) jd_text) (seniority_keywords level))"

definition seniority_scores :: "string \<Rightarrow> (SeniorityLevel \<times> nat) list" where
  "seniority_scores jd_text =
     map (\<lambda>level. (level, level_score jd_text level)) SeniorityLevel_members"

text \<open>
  \<^verbatim>\<open>max(items, key=...)\<close> keeps the first item and replaces it only by an item whose
  key is strictly greater; on an empty sequence it raises \<^verbatim>\<open>ValueError\<close>.
\<close>

fun max_from :: "('a \<Rightarrow> nat) \<Rightarrow> 'a \<Rightarrow> 'a list \<Rightarrow> 'a" where
  "max_from key best [] = best"
| "max_from key best (x # xs) = max_from key (if key best < key x then x else best) xs"

definition max_key :: "('a \<Rightarrow> nat) \<Rightarrow> 'a list \<Rightarrow> error + 'a" where
  "max_key key xs = (case xs of [] \<Rightarrow> Inl ValueError | x # rest \<Rightarrow> Inr (max_from key x rest))"

definition determine_seniority :: "string \<Rightarrow> error + SeniorityLevel" where
  "determine_seniority jd_text =
     (let scores = seniority_scores jd_text
      in case max_key id (map snd scores) of
           Inl e \<Rightarrow> Inl e
         | Inr highest \<Rightarrow>
             if highest = 0 then Inr MID
             else (case max_key snd scores of Inl e \<Rightarrow> Inl e | Inr item \<Rightarrow> Inr (fst item)))"

subsection \<open>\<^verbatim>\<open>parse_jd\<close>\<close>

text \<open>The handler of the source logs and raises the exception again, so an error passes through.\<close>

definition parse_jd :: "JDParseRequest \<Rightarrow> error + JDParseResponse" where
  "parse_jd request =
     (let jd_text = lower (job_description request)
      in case extract_technical_skills jd_text of
           Inl e \<Rightarrow> Inl e
         | Inr technical \<Rightarrow>
             (let soft = extract_soft_skills jd_text
              in case determine_seniority jd_text of
                   Inl e \<Rightarrow> Inl e
                 | Inr seniority \<Rightarrow>
                     Inr \<lparr>skills = technical, soft_skills = soft,
                          seniority_hint = seniority,
                          parsed_job_id = parse_job_id request\<rparr>))"


section \<open>Data model of the candidate ranker (\<^verbatim>\<open>models/jd_models.py\<close>)\<close>

text \<open>
  A Python dictionary keeps its keys in the order of their first insertion; it is an
  association list here. Fields that several models share by name carry a prefix.
\<close>

type_synonym 'v dict = "(string \<times> 'v) list"

record Project =
  project_name :: string
  description :: "string option"
  technologies :: "string list"
  completion_date :: "string option"

record Candidate =
  student_id :: string
  cand_skills :: "real dict"
  cand_eval_score :: real
  recent_projects :: "Project list"

record MatchWeights =
  weight_skill :: real
  weight_eval :: real
  weight_recency :: real

record MatchRequest =
  job_id :: string
  candidates :: "Candidate list"
  top_k :: int
  weights :: MatchWeights

text \<open>
  The entries of the reasons are formatted strings: \<open>Plain s\<close> is \<^verbatim>\<open>s\<close>,
  \<open>WithLevel s l\<close> is \<^verbatim>\<open>f"{s} (level {l})"\<close> and \<open>LowLevel s l\<close> is
  \<^verbatim>\<open>f"{s} (low level: {l})"\<close>.
\<close>

datatype reason = Plain string | WithLevel string real | LowLevel string real

record MatchReasons =
  top_terms :: "string list"
  skill_gaps :: "reason list"
  strengths :: "reason list"

record Match =
  match_student_id :: string
  score :: real
  reasons :: MatchReasons
  skill_score :: real
  eval_score :: real
  recency_score :: real

text \<open>
  \<^verbatim>\<open>Match(...)\<close>: each of the four score fields is declared with
  \<^verbatim>\<open>ge=0.0, le=100.0\<close>, and pydantic raises when a value is out of these bounds.
\<close>

definition in_0_100 :: "real \<Rightarrow> bool" where
  "in_0_100 x \<longleftrightarrow> 0 \<le> x \<and> x \<le> 100"

definition new_Match :: "string \<Rightarrow> real \<Rightarrow> MatchReasons \<Rightarrow> real \<Rightarrow> real \<Rightarrow> real \<Rightarrow> error + Match" where
  "new_Match sid sc rs ss es rc =
     (if in_0_100 sc \<and> in_0_100 ss \<and> in_0_100 es \<and> in_0_100 rc
      then Inr \<lparr>match_student_id = sid, score = sc, reasons = rs,
                skill_score = ss, eval_score = es, recency_score = rc\<rparr>
      else Inl ValidationError)"

record MatchResponse =
  response_job_id :: string
  matches :: "Match list"
  total_candidates :: nat
  processing_time_ms :: real

text \<open>
  What the validation of a request at the boundary establishes: the bounds declared in
  \<^verbatim>\<open>Candidate\<close>, \<^verbatim>\<open>MatchWeights\<close> and \<^verbatim>\<open>MatchRequest\<close>. The skill levels of a
  candidate are declared as \<^verbatim>\<open>Dict[str, float]\<close> without a bound.
\<close>

definition valid_Candidate :: "Candidate \<Rightarrow> bool" where
  "valid_Candidate c \<longleftrightarrow> 0 \<le> cand_eval_score c \<and> cand_eval_score c \<le> 100"

definition valid_MatchWeights :: "MatchWeights \<Rightarrow> bool" where
  "valid_MatchWeights w \<longleftrightarrow>
     0 \<le> weight_skill w \<and> weight_skill w \<le> 1 \<and> 0 \<le> weight_eval w \<and> weight_eval w \<le> 1 \<and>
     0 \<le> weight_recency w \<and> weight_recency w \<le> 1"

definition valid_MatchRequest :: "MatchRequest \<Rightarrow> bool" where
  "valid_MatchRequest r \<longleftrightarrow>
     list_all valid_Candidate (candidates r) \<and> 1 \<le> top_k r \<and> top_k r \<le> 100 \<and>
     valid_MatchWeights (weights r)"

text \<open>The range that the description of the field gives for a skill level, 0 to 5.\<close>

definition levels_in_range :: "real dict \<Rightarrow> bool" where
  "levels_in_range d \<longleftrightarrow> list_all (\<lambda>(k, level). 0 \<le> level \<and> level \<le> 5) d"

section \<open>The candidate ranker (\<^verbatim>\<open>services/candidate_matcher.py\<close>)\<close>

subsection \<open>Dictionaries\<close>

text \<open>\<^verbatim>\<open>d[k] = v\<close>: an existing key keeps its place, a new key goes to the end.\<close>

fun dict_set :: "'v dict \<Rightarrow> string \<Rightarrow> 'v \<Rightarrow> 'v dict" where
  "dict_set [] k v = [(k, v)]"
| "dict_set ((k', v') # d) k v = (if k' = k then (k', v) # d else (k', v') # dict_set d k v)"

text \<open>\<^verbatim>\<open>{k.lower(): v for k, v in d.items()}\<close>\<close>

definition lower_keys :: "'v dict \<Rightarrow> 'v dict" where
  "lower_keys d = fold (\<lambda>(k, v) acc. dict_set acc (lower k) v) d []"

subsection \<open>Skill score\<close>

definition skill_mappings :: "(string list) dict" where
  "skill_mappings =
    [(''machine learning'', [''ml'', ''ai'', ''artificial intelligence'']),
     (''artificial intelligence'', [''ai'', ''ml'', ''machine learning'']),
     (''javascript'', [''js'', ''node'', ''nodejs'']),
     (''python'', [''py'']),
     (''database'', [''db'', ''sql'', ''mysql'', ''postgresql'']),
     (''react'', [''reactjs'']),
     (''angular'', [''angularjs''])]"

text \<open>The loop over the aliases, which returns at the first alias that is a key.\<close>

fun alias_match :: "string list \<Rightarrow> real dict \<Rightarrow> real option" where
  "alias_match [] candidate_skills = None"
| "alias_match (alias # rest) candidate_skills =
     (case map_of candidate_skills alias of
        Some level \<Rightarrow> Some (level * 0.8)
      | None \<Rightarrow> alias_match rest candidate_skills)"

text \<open>The loop over the items of the candidate, which returns at the first related key.\<close>

fun substring_match :: "string \<Rightarrow> real dict \<Rightarrow> real option" where
  "substring_match job_skill [] = None"
| "substring_match job_skill ((candidate_skill, level) # rest) =
     (if contains job_skill candidate_skill \<or> contains candidate_skill job_skill
      then Some (level * 0.6)
      else substring_match job_skill rest)"

definition find_partial_skill_match :: "string \<Rightarrow> real dict \<Rightarrow> real" where
  "find_partial_skill_match job_skill candidate_skills =
     (case (case map_of skill_mappings job_skill of
              Some aliases \<Rightarrow> alias_match aliases candidate_skills
            | None \<Rightarrow> None) of
        Some partial \<Rightarrow> partial
      | None \<Rightarrow>
          (case substring_match job_skill candidate_skills of
             Some partial \<Rightarrow> partial
           | None \<Rightarrow> 0.0))"

text \<open>
  One round of the loop of \<^verbatim>\<open>_calculate_skill_score\<close> over the set of required
  skills, on the pair \<^verbatim>\<open>(total_skill_score, max_possible_score)\<close>.
\<close>

definition skill_contribution :: "real dict \<Rightarrow> string \<Rightarrow> real" where
  "skill_contribution candidate_skills_lower job_skill =
     (case map_of candidate_skills_lower job_skill of
        Some level \<Rightarrow> level
      | None \<Rightarrow> find_partial_skill_match job_skill candidate_skills_lower)"

definition skill_step :: "real dict \<Rightarrow> string \<Rightarrow> real \<times> real \<Rightarrow> real \<times> real" where
  "skill_step candidate_skills_lower job_skill acc =
     (fst acc + skill_contribution candidate_skills_lower job_skill, snd acc + 5.0)"

text \<open>
  \<^verbatim>\<open>job_skills_set\<close> is a Python set: its elements are the distinct lower-cased
  required skills, and the loop visits them in an order the language leaves open. The
  list \<open>remdups (map lower job_skills)\<close> is one such order; over the reals the sum does
  not depend on it.
\<close>

definition calculate_skill_score :: "real dict \<Rightarrow> string list \<Rightarrow> real" where
  "calculate_skill_score candidate_skills job_skills =
     (if job_skills = [] \<or> candidate_skills = [] then 0.0
      else
        let job_skills_set = remdups (map lower job_skills);
            candidate_skills_lower = lower_keys candidate_skills;
            matched_skills =
              filter (\<lambda>s. s \<in> set (map fst candidate_skills_lower)) job_skills_set
        in if matched_skills = [] then 0.0
           else
             let acc = fold (skill_step candidate_skills_lower) job_skills_set (0.0, 0.0)
             in if 0 < snd acc then (fst acc / snd acc) * 100 else 0.0)"


subsection \<open>Dates of the standard library\<close>

text \<open>
  \<^verbatim>\<open>datetime.strptime(s, '%Y-%m-%d')\<close> matches the start of \<open>s\<close> against
  \<^verbatim>\<open>(\d\d\d\d)-(1[0-2]|0[1-9]|[1-9])-(3[01]|[12]\d|0[1-9]|[1-9]| [1-9])\<close>, demands that
  the match covers all of \<open>s\<close>, and builds the date, which demands a year from 1 on and
  a day that the month has. Every failure is a \<^verbatim>\<open>ValueError\<close>.
\<close>

definition is_digit :: "char \<Rightarrow> bool" where
  "is_digit c \<longleftrightarrow> 48 \<le> ord_char c \<and> ord_char c \<le> 57"

definition digit :: "char \<Rightarrow> nat" where
  "digit c = ord_char c - 48"

fun year_token :: "string \<Rightarrow> (nat \<times> string) option" where
  "year_token (a # b # c # d # rest) =
     (if is_digit a \<and> is_digit b \<and> is_digit c \<and> is_digit d
      then Some (1000 * digit a + 100 * digit b + 10 * digit c + digit d, rest)
      else None)"
| "year_token _ = None"

fun month_token :: "string \<Rightarrow> (nat \<times> string) option" where
  "month_token (a # b # rest) =
     (if a = CHR ''1'' \<and> is_digit b \<and> digit b \<le> 2 then Some (10 + digit b, rest)
      else if a = CHR ''0'' \<and> is_digit b \<and> 1 \<le> digit b then Some (digit b, rest)
      else if is_digit a \<and> 1 \<le> digit a then Some (digit a, b # rest)
      else None)"
| "month_token [a] = (if is_digit a \<and> 1 \<le> digit a then Some (digit a, []) else None)"
| "month_token [] = None"

fun day_token :: "string \<Rightarrow> (nat \<times> string) option" where
  "day_token (a # b # rest) =
     (if a = CHR ''3'' \<and> is_digit b \<and> digit b \<le> 1 then Some (30 + digit b, rest)
      else if (a = CHR ''1'' \<or> a = CHR ''2'') \<and> is_digit b then Some (10 * digit a + digit b, rest)
      else if a = CHR ''0'' \<and> is_digit b \<and> 1 \<le> digit b then Some (digit b, rest)
      else if is_digit a \<and> 1 \<le> digit a then Some (digit a, b # rest)
      else if a = CHR '' '' \<and> is_digit b \<and> 1 \<le> digit b then Some (digit b, rest)
      else None)"
| "day_token [a] = (if is_digit a \<and> 1 \<le> digit a then Some (digit a, []) else None)"
| "day_token [] = None"

fun dash :: "string \<Rightarrow> string option" where
  "dash (c # rest) = (if c = CHR ''-'' then Some rest else None)"
| "dash [] = None"

definition is_leap :: "nat \<Rightarrow> bool" where
  "is_leap y \<longleftrightarrow> y mod 4 = 0 \<and> (y mod 100 \<noteq> 0 \<or> y mod 400 = 0)"

definition days_in_month :: "nat \<Rightarrow> nat \<Rightarrow> nat" where
  "days_in_month y m =
     (if m = 2 then (if is_leap y then 29 else 28)
      else if m = 4 \<or> m = 6 \<or> m = 9 \<or> m = 11 then 30 else 31)"

text \<open>\<^verbatim>\<open>date.toordinal\<close>: the number of the day, where 1 January of the year 1 is day 1.\<close>

definition days_before_year :: "nat \<Rightarrow> int" where
  "days_before_year year =
     (let y = int year - 1 in y * 365 + y div 4 - y div 100 + y div 400)"

definition days_before_month :: "nat \<Rightarrow> nat \<Rightarrow> int" where
  "days_before_month year month = int (sum_list (map (days_in_month year) [1..<month]))"

definition ymd2ord :: "nat \<Rightarrow> nat \<Rightarrow> nat \<Rightarrow> int" where
  "ymd2ord year month day = days_before_year year + days_before_month year month + int day"

text \<open>
  A \<^verbatim>\<open>datetime\<close> is the ordinal of its date and the time of the day in microseconds,
  from 0 up to but excluding \<open>86400000000\<close>.
\<close>

record datetime =
  ordinal :: int
  microseconds :: int

definition valid_datetime :: "datetime \<Rightarrow> bool" where
  "valid_datetime t \<longleftrightarrow> 0 \<le> microseconds t \<and> microseconds t < 86400000000"

definition strptime :: "string \<Rightarrow> error + datetime" where
  "strptime s =
     (case year_token s of
        None \<Rightarrow> Inl ValueError
      | Some (y, s1) \<Rightarrow>
     (case dash s1 of
        None \<Rightarrow> Inl ValueError
      | Some s2 \<Rightarrow>
     (case month_token s2 of
        None \<Rightarrow> Inl ValueError
      | Some (m, s3) \<Rightarrow>
     (case dash s3 of
        None \<Rightarrow> Inl ValueError
      | Some s4 \<Rightarrow>
     (case day_token s4 of
        None \<Rightarrow> Inl ValueError
      | Some (d, s5) \<Rightarrow>
          if s5 \<noteq> [] then Inl ValueError
          else if y < 1 \<or> days_in_month y m < d then Inl ValueError
          else Inr \<lparr>ordinal = ymd2ord y m d, microseconds = 0\<rparr>)))))"

text \<open>
  \<^verbatim>\<open>(a - b).days\<close>: a \<^verbatim>\<open>timedelta\<close> keeps its seconds and microseconds
  non-negative, so its days are the difference rounded down.
\<close>

definition days_between :: "datetime \<Rightarrow> datetime \<Rightarrow> int" where
  "days_between a b =
     ((ordinal a - ordinal b) * 86400000000 + (microseconds a - microseconds b))
       div 86400000000"

subsection \<open>Recency score\<close>

text \<open>
  The body of the loop of \<^verbatim>\<open>_calculate_recency_score\<close>: what one project adds to
  \<^verbatim>\<open>total_score\<close>. The test \<^verbatim>\<open>project.completion_date\<close> is false for \<^verbatim>\<open>None\<close> and
  for the empty string. \<open>current_date\<close> is the reading of \<^verbatim>\<open>datetime.now()\<close>.
\<close>

definition recency_bucket :: "int \<Rightarrow> real" where
  "recency_bucket days_ago =
     (if days_ago \<le> 30 then 100
      else if days_ago \<le> 90 then 80
      else if days_ago \<le> 180 then 60
      else if days_ago \<le> 365 then 40
      else 20)"

definition project_score :: "datetime \<Rightarrow> Project \<Rightarrow> real" where
  "project_score current_date project =
     (case completion_date project of
        None \<Rightarrow> 70
      | Some s \<Rightarrow>
          if s = [] then 70
          else (case strptime s of
                  Inr completion \<Rightarrow> recency_bucket (days_between current_date completion)
                | Inl e \<Rightarrow> 50))"

definition calculate_recency_score :: "datetime \<Rightarrow> Project list \<Rightarrow> real" where
  "calculate_recency_score current_date projects =
     (if projects = [] then 50.0
      else
        let total_score = fold (\<lambda>project total. total + project_score current_date project)
                               projects 0.0
        in if projects \<noteq> [] then total_score / real (length projects) else 50.0)"


subsection \<open>Reasons\<close>

text \<open>
  One round of the first loop of \<^verbatim>\<open>_generate_match_reasons\<close>, on the triple
  \<^verbatim>\<open>(top_terms, skill_gaps, strengths)\<close>, and one round of the second loop, on
  \<^verbatim>\<open>strengths\<close>.
\<close>

definition reason_step ::
  "real dict \<Rightarrow> string \<Rightarrow> string list \<times> reason list \<times> reason list
     \<Rightarrow> string list \<times> reason list \<times> reason list" where
  "reason_step candidate_skills_lower job_skill acc =
     (case acc of (tt, sg, st) \<Rightarrow>
        (case map_of candidate_skills_lower job_skill of
           Some skill_level \<Rightarrow>
             if 4.0 \<le> skill_level
             then (tt @ [job_skill], sg, st @ [WithLevel job_skill skill_level])
             else if 2.0 \<le> skill_level then (tt @ [job_skill], sg, st)
             else (tt, sg @ [LowLevel job_skill skill_level], st)
         | None \<Rightarrow> (tt, sg @ [Plain job_skill], st)))"

definition strength_step :: "string list \<Rightarrow> string \<times> real \<Rightarrow> reason list \<Rightarrow> reason list" where
  "strength_step job_skills_lower item st =
     (case item of (skill, level) \<Rightarrow>
        if 4.5 \<le> level \<and> lower skill \<notin> set job_skills_lower
        then st @ [WithLevel skill level] else st)"

definition generate_match_reasons :: "Candidate \<Rightarrow> string list \<Rightarrow> MatchReasons" where
  "generate_match_reasons candidate job_skills =
     (let candidate_skills_lower = lower_keys (cand_skills candidate);
          job_skills_lower = map lower job_skills
      in case fold (reason_step candidate_skills_lower) job_skills_lower ([], [], []) of
           (tt, sg, st) \<Rightarrow>
             (let st' = fold (strength_step job_skills_lower) (cand_skills candidate) st
              in \<lparr>top_terms = slice_to tt 5, skill_gaps = slice_to sg 5,
                  strengths = slice_to st' 3\<rparr>))"

subsection \<open>Evaluation of one candidate\<close>

text \<open>
  The weighted sum of the three component scores, as Python evaluates
  \<^verbatim>\<open>skill_score * weights.skill + eval_score * weights.eval + recency_score * weights.recency\<close>
  on doubles: three products, added from left to right.
\<close>

definition overall_score :: "real \<Rightarrow> real \<Rightarrow> real \<Rightarrow> MatchWeights \<Rightarrow> real" where
  "overall_score ss es rc w =
     fadd (fadd (fmul ss (weight_skill w)) (fmul es (weight_eval w)))
          (fmul rc (weight_recency w))"

text \<open>
  The part of \<^verbatim>\<open>_evaluate_candidate\<close> that follows the computation of the three
  component scores: the weighted sum and the construction of the \<^verbatim>\<open>Match\<close> from the
  rounded scores.
\<close>

definition score_candidate ::
  "string \<Rightarrow> MatchReasons \<Rightarrow> real \<Rightarrow> real \<Rightarrow> real \<Rightarrow> MatchWeights \<Rightarrow> error + Match" where
  "score_candidate sid rs ss es rc w =
     (let overall = overall_score ss es rc w
      in new_Match sid (py_round2 overall) rs
           (py_round2 ss) (py_round2 es) (py_round2 rc))"

text \<open>
  The skill score and the recency score enter as the doubles nearest to the real values
  of \<open>calculate_skill_score\<close> and \<open>calculate_recency_score\<close>. For the recency score this
  is the double of the code (a sum of integers and one division). For the skill score
  the double of the code, which rounds after each addition in the order of its set
  iteration, can differ from it in the last places.
\<close>

definition evaluate_candidate ::
  "datetime \<Rightarrow> Candidate \<Rightarrow> string list \<Rightarrow> MatchWeights \<Rightarrow> error + Match" where
  "evaluate_candidate current_date candidate job_skills w =
     (let skill_score = fl (calculate_skill_score (cand_skills candidate) job_skills);
          eval_score = cand_eval_score candidate;
          recency_score = fl (calculate_recency_score current_date (recent_projects candidate));
          reasons = generate_match_reasons candidate job_skills
      in score_candidate (student_id candidate) reasons skill_score eval_score recency_score w)"

subsection \<open>Ranking\<close>

text \<open>
  What a call reads from its environment: \<open>now i\<close> is the reading of
  \<^verbatim>\<open>datetime.now()\<close> while the candidate at index \<open>i\<close> is evaluated, and the two
  readings of \<^verbatim>\<open>time.time()\<close>, in seconds.
\<close>

record environment =
  now :: "nat \<Rightarrow> datetime"
  time_start :: real
  time_end :: real

text \<open>An environment whose clock reads the same instant at every call.\<close>

definition steady :: "datetime \<Rightarrow> nat \<Rightarrow> datetime" where
  "steady t i = t"

text \<open>The loop over the candidates; the first exception ends it.\<close>

fun evaluate_from ::
  "environment \<Rightarrow> nat \<Rightarrow> Candidate list \<Rightarrow> string list \<Rightarrow> MatchWeights \<Rightarrow> error + Match list" where
  "evaluate_from env i [] job_skills w = Inr []"
| "evaluate_from env i (candidate # rest) job_skills w =
     (case evaluate_candidate (now env i) candidate job_skills w of
        Inl e \<Rightarrow> Inl e
      | Inr match_result \<Rightarrow>
          (case evaluate_from env (Suc i) rest job_skills w of
             Inl e \<Rightarrow> Inl e
           | Inr ms \<Rightarrow> Inr (match_result # ms)))"

definition default_job_skills :: "string list" where
  "default_job_skills = [''python'', ''machine learning'', ''sql'', ''communication'']"

definition match_candidates ::
  "environment \<Rightarrow> MatchRequest \<Rightarrow> string list option \<Rightarrow> error + MatchResponse" where
  "match_candidates env request job_skills_arg =
     (let job_skills = (case job_skills_arg of None \<Rightarrow> default_job_skills | Some js \<Rightarrow> js)
      in case evaluate_from env 0 (candidates request) job_skills (weights request) of
           Inl e \<Rightarrow> Inl e
         | Inr ms \<Rightarrow>
             Inr \<lparr>response_job_id = job_id request,
                  matches = slice_to (sort_reverse score ms) (top_k request),
                  total_candidates = length (candidates request),
                  processing_time_ms =
                    py_round2 (fmul (fsub (time_end env) (time_start env)) 1000)\<rparr>)"

subsection \<open>The endpoint \<^verbatim>\<open>POST /api/ai/jd/match\<close> (\<^verbatim>\<open>main.py\<close>)\<close>

text \<open>
  The handler calls \<^verbatim>\<open>candidate_matcher.match_candidates(request)\<close> with no second
  argument and turns any exception into an \<^verbatim>\<open>HTTPException\<close> with status 500.
\<close>

datatype http_error = HTTPException nat

definition api_match_candidates :: "environment \<Rightarrow> MatchRequest \<Rightarrow> http_error + MatchResponse" where
  "api_match_candidates env request =
     (case match_candidates env request None of
        Inl e \<Rightarrow> Inl (HTTPException 500)
      | Inr result \<Rightarrow> Inr result)"


section \<open>Notions of the specification\<close>

text \<open>
  The boost window of the section boost, in the words of the specification: the part of
  the text that starts at the first occurrence of \<^verbatim>\<open>requirements\<close> when the text
  contains this word, and the whole text otherwise.
\<close>

definition boost_window :: "string \<Rightarrow> string" where
  "boost_window text =
     (if contains ''requirements'' text
      then drop (nat (find_str text ''requirements'')) text
      else text)"

section \<open>Properties\<close>

subsection \<open>Rounding keeps bounds that are multiples of 0.01\<close>

lemma round_half_even_lower: "of_int n \<le> y \<Longrightarrow> n \<le> round_half_even y"
proof -
  assume "of_int n \<le> y"
  then have "n \<le> \<lfloor>y\<rfloor>" by (simp add: le_floor_iff)
  then show ?thesis unfolding round_half_even_def Let_def by auto
qed

lemma round_half_even_upper: "y \<le> of_int n \<Longrightarrow> round_half_even y \<le> n"
proof -
  assume a: "y \<le> of_int n"
  have f: "\<lfloor>y\<rfloor> \<le> n" using a by (simp add: floor_le_iff) 
  show ?thesis
  proof (cases "\<lfloor>y\<rfloor> = n")
    case True
    then have "y - of_int \<lfloor>y\<rfloor> \<le> 0" using a by simp
    then show ?thesis using True unfolding round_half_even_def Let_def by auto
  next
    case False
    then have "\<lfloor>y\<rfloor> + 1 \<le> n" using f by linarith
    then show ?thesis using f unfolding round_half_even_def Let_def by auto
  qed
qed

lemma round2_lower: "real_of_int n / 100 \<le> x \<Longrightarrow> real_of_int n / 100 \<le> round2 x"
  unfolding round2_def using round_half_even_lower [of n "x * 100"]
  by (simp add: divide_le_cancel field_simps)

lemma round2_upper: "x \<le> real_of_int n / 100 \<Longrightarrow> round2 x \<le> real_of_int n / 100"
  unfolding round2_def using round_half_even_upper [of "x * 100" n]
  by (simp add: divide_le_cancel field_simps)



lemma round2_in_0_1: "0 \<le> x \<Longrightarrow> x \<le> 1 \<Longrightarrow> 0 \<le> round2 x \<and> round2 x \<le> 1"
  using round2_lower [of 0 x] round2_upper [of x 100] by simp

subsection \<open>The skill score lies between 0 and 100\<close>

lemma map_of_dict_set: "map_of (dict_set d k v) = (map_of d)(k \<mapsto> v)"
  by (induction d k v rule: dict_set.induct) (auto simp: fun_eq_iff)

lemma levels_dict_set:
  "levels_in_range d \<Longrightarrow> 0 \<le> v \<Longrightarrow> v \<le> 5 \<Longrightarrow> levels_in_range (dict_set d k v)"
  unfolding levels_in_range_def by (induction d k v rule: dict_set.induct) auto

lemma levels_fold_dict_set:
  "levels_in_range acc \<Longrightarrow> levels_in_range d \<Longrightarrow>
     levels_in_range (fold (\<lambda>(k, v) acc. dict_set acc (lower k) v) d acc)"
proof (induction d arbitrary: acc)
  case Nil
  then show ?case by simp
next
  case (Cons kv d)
  obtain k v where kv: "kv = (k, v)" by (cases kv)
  from Cons.prems(2) have v: "0 \<le> v" "v \<le> 5" and d: "levels_in_range d"
    by (simp_all add: levels_in_range_def kv)
  show ?case using Cons.IH [OF levels_dict_set [OF Cons.prems(1) v] d] by (simp add: kv)
qed

lemma levels_lower_keys: "levels_in_range d \<Longrightarrow> levels_in_range (lower_keys d)"
  unfolding lower_keys_def by (rule levels_fold_dict_set) (simp_all add: levels_in_range_def)

lemma levels_map_of:
  "levels_in_range d \<Longrightarrow> map_of d k = Some level \<Longrightarrow> 0 \<le> level \<and> level \<le> 5"
  unfolding levels_in_range_def by (induction d) (auto split: if_splits)

lemma alias_match_range:
  "levels_in_range d \<Longrightarrow> alias_match aliases d = Some x \<Longrightarrow> 0 \<le> x \<and> x \<le> 5"
  by (induction aliases) (auto split: option.splits dest!: levels_map_of)

lemma substring_match_range:
  "levels_in_range d \<Longrightarrow> substring_match job_skill d = Some x \<Longrightarrow> 0 \<le> x \<and> x \<le> 5"
  unfolding levels_in_range_def by (induction d) (auto split: if_splits)

lemma find_partial_range:
  "levels_in_range d \<Longrightarrow>
     0 \<le> find_partial_skill_match job_skill d \<and> find_partial_skill_match job_skill d \<le> 5"
  unfolding find_partial_skill_match_def
  by (auto split: option.splits dest: alias_match_range substring_match_range)

lemma skill_contribution_range:
  "levels_in_range d \<Longrightarrow> 0 \<le> skill_contribution d job_skill \<and> skill_contribution d job_skill \<le> 5"
  unfolding skill_contribution_def
  using find_partial_range [of d job_skill] by (auto split: option.splits dest: levels_map_of)

lemma fold_skill_step:
  "fold (skill_step d) xs acc =
     (fst acc + sum_list (map (skill_contribution d) xs), snd acc + 5 * real (length xs))"
  by (induction xs arbitrary: acc) (simp_all add: skill_step_def algebra_simps)

lemma sum_contribution_range:
  "levels_in_range d \<Longrightarrow>
     0 \<le> sum_list (map (skill_contribution d) xs) \<and>
     sum_list (map (skill_contribution d) xs) \<le> 5 * real (length xs)"
proof (induction xs)
  case Nil
  then show ?case by simp
next
  case (Cons x xs)
  then show ?case using skill_contribution_range [of d x] by (simp add: algebra_simps)
qed

lemma calculate_skill_score_range:
  assumes "levels_in_range candidate_skills"
  shows "in_0_100 (calculate_skill_score candidate_skills job_skills)"
proof -
  let ?d = "lower_keys candidate_skills"
  let ?xs = "remdups (map lower job_skills)"
  let ?s = "sum_list (map (skill_contribution ?d) ?xs)"
  let ?n = "5 * real (length ?xs)"
  have r: "0 \<le> ?s" "?s \<le> ?n"
    using sum_contribution_range [OF levels_lower_keys [OF assms], of ?xs] by simp_all
  have "0 \<le> ?s / ?n * 100 \<and> ?s / ?n * 100 \<le> 100" if "0 < ?n"
    using r that by (simp add: field_simps)
  then show ?thesis
    unfolding calculate_skill_score_def in_0_100_def Let_def fold_skill_step by simp
qed

subsection \<open>The recency score lies between 0 and 100\<close>

lemma recency_bucket_range: "20 \<le> recency_bucket n \<and> recency_bucket n \<le> 100"
  by (simp add: recency_bucket_def)

lemma project_score_range: "20 \<le> project_score t p \<and> project_score t p \<le> 100"
  unfolding project_score_def using recency_bucket_range
  by (auto split: option.splits sum.splits)

lemma fold_project_score:
  "fold (\<lambda>project total. total + project_score t project) ps acc =
     acc + sum_list (map (project_score t) ps)"
  by (induction ps arbitrary: acc) simp_all

lemma calculate_recency_score_mean:
  "ps \<noteq> [] \<Longrightarrow>
     calculate_recency_score t ps = sum_list (map (project_score t) ps) / real (length ps)"
  by (simp add: calculate_recency_score_def fold_project_score)

lemma sum_project_score_range:
  "20 * real (length ps) \<le> sum_list (map (project_score t) ps) \<and>
   sum_list (map (project_score t) ps) \<le> 100 * real (length ps)"
proof (induction ps)
  case Nil
  then show ?case by simp
next
  case (Cons p ps)
  then show ?case using project_score_range [of t p] by (simp add: algebra_simps)
qed

lemma calculate_recency_score_range: "in_0_100 (calculate_recency_score t ps)"
proof (cases "ps = []")
  case True
  then show ?thesis by (simp add: calculate_recency_score_def in_0_100_def)
next
  case False
  then have n: "0 < real (length ps)" by simp
  show ?thesis
    using sum_project_score_range [of ps t] n
    unfolding calculate_recency_score_mean [OF False] in_0_100_def
    by (simp add: field_simps)
qed

subsection \<open>Doubles keep the bounds 0 and 100\<close>

lemma pow2_pos: "0 < pow2 e"
  by (simp add: pow2_def)

lemma ulp_pos: "0 < ulp x"
  by (simp add: ulp_def pow2_pos)

lemma fl_nonneg: "0 \<le> x \<Longrightarrow> 0 \<le> fl x"
proof -
  assume "0 \<le> x"
  then have "0 \<le> x / ulp x" using ulp_pos [of x] by simp
  then have "0 \<le> round_half_even (x / ulp x)"
    using round_half_even_lower [of 0 "x / ulp x"] by simp
  then show ?thesis using ulp_pos [of x] by (simp add: fl_def)
qed

lemma exponent_up_le: "x < 2 ^ Suc n \<Longrightarrow> exponent_up k x \<le> int n"
proof (induction k arbitrary: x n)
  case 0
  show ?case by simp
next
  case (Suc k)
  show ?case
  proof (cases "x < 2")
    case True
    then show ?thesis by simp
  next
    case False
    then obtain n' where n: "n = Suc n'" using Suc.prems by (cases n) auto
    have "x / 2 < 2 ^ Suc n'" using Suc.prems unfolding n by simp
    then have "exponent_up k (x / 2) \<le> int n'" by (rule Suc.IH)
    then show ?thesis using False by (simp add: n)
  qed
qed

lemma exponent_down_le: "exponent_down k x \<le> 0"
proof (induction k arbitrary: x)
  case 0
  show ?case by simp
next
  case (Suc k)
  have "exponent_down k (x * 2) \<le> 0" by (rule Suc.IH)
  then show ?case by simp
qed

lemma exponent_le_6: "\<bar>x\<bar> \<le> 100 \<Longrightarrow> exponent x \<le> 6"
proof -
  assume "\<bar>x\<bar> \<le> 100"
  then have "\<bar>x\<bar> < 2 ^ Suc 6" by simp
  then have "exponent_up 1024 \<bar>x\<bar> \<le> int 6" by (rule exponent_up_le)
  moreover have "exponent_down 1075 \<bar>x\<bar> \<le> 0" by (rule exponent_down_le)
  ultimately show ?thesis by (simp add: exponent_def)
qed

lemma fl_le_100: "x \<le> 100 \<Longrightarrow> fl x \<le> 100"
proof (cases "0 \<le> x")
  case False
  then have "x / ulp x \<le> 0" using ulp_pos [of x] by (simp add: divide_le_0_iff)
  then have "round_half_even (x / ulp x) \<le> 0"
    using round_half_even_upper [of "x / ulp x" 0] by simp
  then have "of_int (round_half_even (x / ulp x)) * ulp x \<le> 0"
    using ulp_pos [of x] by (simp add: mult_le_0_iff)
  then show ?thesis by (simp add: fl_def)
next
  case True
  assume le: "x \<le> 100"
  define m where "m = max (exponent x) (- 1022) - 52"
  define K :: nat where "K = 2 ^ nat (- m)"
  have "exponent x \<le> 6" using True le by (intro exponent_le_6) simp
  then have m: "m < 0" by (simp add: m_def)
  have u: "ulp x = 1 / real K" using m by (simp add: ulp_def pow2_def m_def [symmetric] K_def)
  have K: "0 < real K" by (simp add: K_def)
  have "x / ulp x \<le> of_int (100 * int K)"
    using le K unfolding u by simp
  then have "round_half_even (x / ulp x) \<le> 100 * int K" by (rule round_half_even_upper)
  then have "real_of_int (round_half_even (x / ulp x)) \<le> 100 * real K"
    by (metis of_int_le_iff of_int_mult of_int_numeral of_int_of_nat_eq)
  then have "real_of_int (round_half_even (x / ulp x)) * ulp x \<le> 100"
    using K unfolding u by (simp add: field_simps)
  then show ?thesis by (simp add: fl_def)
qed



lemma fl_in_0_100: "in_0_100 x \<Longrightarrow> in_0_100 (fl x)"
  by (simp add: in_0_100_def fl_nonneg fl_le_100)



lemma evaluate_candidate_score:
  "evaluate_candidate t c js w = Inr m \<Longrightarrow>
     in_0_100 (score m) \<and> match_student_id m = student_id c"
  unfolding evaluate_candidate_def score_candidate_def new_Match_def Let_def
  by (auto split: if_splits)

lemma evaluate_candidate_error: "evaluate_candidate t c js w = Inl e \<Longrightarrow> e = ValidationError"
  unfolding evaluate_candidate_def score_candidate_def new_Match_def Let_def
  by (auto split: if_splits)

text \<open>
  Two sums where the doubles decide the second decimal: the products \<open>20 * 0.6\<close>,
  \<open>61.65 * 0.3\<close> and \<open>50 * 0.1\<close> on doubles add up to a double just below 35.495, which
  rounds to 35.49, and \<open>100 * 0.5\<close>, \<open>67 * 0.02\<close> and \<open>50 * 0.9733\<close> add up to a double
  just above 100.005, which rounds to 100.01.
\<close>

lemma overall_score_on_doubles:
  "py_round2 (overall_score 20 (fl 61.65) 50
     \<lparr>weight_skill = fl 0.6, weight_eval = fl 0.3, weight_recency = fl 0.1\<rparr>) = fl 35.49 \<and>
   py_round2 (overall_score 100 67 50
     \<lparr>weight_skill = 0.5, weight_eval = fl 0.02, weight_recency = fl 0.9733\<rparr>) = fl 100.01"
  by code_simp

subsection \<open>The overall score\<close>




subsection \<open>Sorting, truncation and the loop over the candidates\<close>

lemma slice_to_take: "\<exists>n. slice_to xs k = take n xs"
  unfolding slice_to_def by auto

lemma length_slice_to: "0 \<le> k \<Longrightarrow> length (slice_to xs k) = min (nat k) (length xs)"
  unfolding slice_to_def by simp

lemma length_sort_reverse: "length (sort_reverse key xs) = length xs"
  unfolding sort_reverse_def by simp

lemma sorted_sort_reverse: "sorted_wrt (\<lambda>a b. key b \<le> key a) (sort_reverse key xs)"
proof -
  have "sorted (map (\<lambda>x. - key x) (sort_key (\<lambda>x. - key x) xs))"
    by (rule sorted_sort_key)
  then show ?thesis unfolding sort_reverse_def sorted_map by simp
qed

lemma stable_sort_reverse:
  "filter (\<lambda>x. key x = k) (sort_reverse key xs) = filter (\<lambda>x. key x = k) xs"
proof -
  have "filter (\<lambda>x. - key x = - k) (sort_key (\<lambda>x. - key x) xs) = filter (\<lambda>x. - key x = - k) xs"
    by (rule sort_key_stable)
  then show ?thesis unfolding sort_reverse_def by simp
qed

lemma prefix_filter_take: "prefix (filter P (take n xs)) (filter P xs)"
proof -
  have "filter P xs = filter P (take n xs) @ filter P (drop n xs)"
    by (metis append_take_drop_id filter_append)
  then show ?thesis by (simp add: prefix_def)
qed

lemma evaluate_from_ids:
  "evaluate_from env i cs js w = Inr ms \<Longrightarrow>
     length ms = length cs \<and> map match_student_id ms = map student_id cs"
proof (induction cs arbitrary: i ms)
  case Nil
  then show ?case by simp
next
  case (Cons c cs)
  from Cons.prems obtain m ms' where
    m: "evaluate_candidate (now env i) c js w = Inr m" and
    ms': "evaluate_from env (Suc i) cs js w = Inr ms'" and ms: "ms = m # ms'"
    by (auto split: sum.splits)
  show ?case using Cons.IH [OF ms'] evaluate_candidate_score [OF m] by (simp add: ms)
qed

lemma evaluate_from_iff:
  "(if \<forall>k<length cs. \<exists>m. evaluate_candidate (now env (i + k)) (cs ! k) js w = Inr m
    then \<exists>ms. evaluate_from env i cs js w = Inr ms
    else evaluate_from env i cs js w = Inl ValidationError)"
proof (induction cs arbitrary: i)
  case Nil
  show ?case by simp
next
  case (Cons c cs)
  let ?head = "\<exists>m. evaluate_candidate (now env i) c js w = Inr m"
  let ?rest = "\<forall>k<length cs. \<exists>m. evaluate_candidate (now env (Suc i + k)) (cs ! k) js w = Inr m"
  have split: "(\<forall>k<length (c # cs).
        \<exists>m. evaluate_candidate (now env (i + k)) ((c # cs) ! k) js w = Inr m)
     \<longleftrightarrow> ?head \<and> ?rest"
    by (auto simp: less_Suc_eq_0_disj)
  note IH = Cons.IH [of "Suc i"]
  show ?case
  proof (cases "evaluate_candidate (now env i) c js w")
    case (Inl e)
    then have "e = ValidationError" by (rule evaluate_candidate_error)
    then show ?thesis unfolding split using Inl by simp
  next
    case (Inr m)
    show ?thesis
    proof (cases ?rest)
      case True
      with IH obtain ms where "evaluate_from env (Suc i) cs js w = Inr ms" by auto
      then show ?thesis unfolding split using True Inr by simp
    next
      case False
      with IH have "evaluate_from env (Suc i) cs js w = Inl ValidationError" by auto
      then show ?thesis unfolding split using False Inr by simp
    qed
  qed
qed

subsection \<open>The number of matches\<close>

text \<open>
  C5 (amended). For every valid request (\<open>top_k\<close> in [1,100], weights in [0,1],
  evaluation scores in [0,100]) with \<open>n\<close> candidates: the ranking returns a response
  exactly when the evaluation of every candidate returns a \<^verbatim>\<open>Match\<close>, that is when the
  constructor of \<^verbatim>\<open>Match\<close> accepts its four rounded scores; then the number of matches
  of the response is \<open>min top_k n\<close> and \<open>total_candidates\<close> is \<open>n\<close>. With no candidate
  this gives a response without matches and \<open>total_candidates = 0\<close>. When the evaluation
  of some candidate raises, the ranking raises the validation error and returns no
  response.
\<close>

theorem match_candidates_count:
  assumes "valid_MatchRequest request"
  shows "(if \<forall>i<length (candidates request).
              \<exists>m. evaluate_candidate (now env i) (candidates request ! i)
                     (case job_skills of None \<Rightarrow> default_job_skills | Some js \<Rightarrow> js)
                     (weights request) = Inr m
          then \<exists>response. match_candidates env request job_skills = Inr response \<and>
                 length (matches response) =
                   min (nat (top_k request)) (length (candidates request)) \<and>
                 total_candidates response = length (candidates request)
          else match_candidates env request job_skills = Inl ValidationError)"
proof -
  let ?js = "case job_skills of None \<Rightarrow> default_job_skills | Some js \<Rightarrow> js"
  let ?cs = "candidates request"
  let ?w = "weights request"
  let ?ok = "\<forall>i<length ?cs. \<exists>m. evaluate_candidate (now env i) (?cs ! i) ?js ?w = Inr m"
  have k: "0 \<le> top_k request" using assms by (simp add: valid_MatchRequest_def)
  note loop = evaluate_from_iff [of ?cs env 0 ?js ?w]
  show ?thesis
  proof (cases ?ok)
    case True
    with loop obtain ms where ms: "evaluate_from env 0 ?cs ?js ?w = Inr ms" by auto
    have len: "length ms = length ?cs" using evaluate_from_ids [OF ms] by simp
    show ?thesis
      using True k unfolding match_candidates_def Let_def
      by (simp add: ms length_slice_to length_sort_reverse len)
  next
    case False
    with loop have "evaluate_from env 0 ?cs ?js ?w = Inl ValidationError" by auto
    then show ?thesis using False unfolding match_candidates_def Let_def by simp
  qed
qed

text \<open>
  The theorem at a request with 15 equal candidates, whose evaluation returns a
  \<^verbatim>\<open>Match\<close> with the score 42.5, and \<open>top_k = 5\<close>: five matches are returned and
  \<open>total_candidates\<close> is 15. At a request without candidates: no match is returned and
  \<open>total_candidates\<close> is 0.
\<close>

theorem match_candidates_count_witness:
  "(\<exists>response.
     match_candidates
       \<lparr>now = steady \<lparr>ordinal = 738900, microseconds = 0\<rparr>, time_start = 0, time_end = 1\<rparr>
       \<lparr>job_id = ''job_001'',
        candidates =
          replicate 15
            \<lparr>student_id = ''s1'', cand_skills = [(''python'', 4)], cand_eval_score = 80,
             recent_projects = []\<rparr>,
        top_k = 5,
        weights = \<lparr>weight_skill = 0.5, weight_eval = 0.25, weight_recency = 0.25\<rparr>\<rparr>
       None = Inr response \<and>
     length (matches response) = 5 \<and> total_candidates response = 15) \<and>
   (\<exists>response.
     match_candidates
       \<lparr>now = steady \<lparr>ordinal = 738900, microseconds = 0\<rparr>, time_start = 0, time_end = 1\<rparr>
       \<lparr>job_id = ''job_001'', candidates = [], top_k = 5,
        weights = \<lparr>weight_skill = 1, weight_eval = 1, weight_recency = 1\<rparr>\<rparr>
       None = Inr response \<and>
     matches response = [] \<and> total_candidates response = 0)"
proof -
  let ?t = "\<lparr>ordinal = 738900, microseconds = 0\<rparr>"
  let ?env = "\<lparr>now = steady ?t, time_start = 0, time_end = 1\<rparr>"
  let ?c = "\<lparr>student_id = ''s1'', cand_skills = [(''python'', 4)], cand_eval_score = 80,
             recent_projects = []\<rparr>"
  let ?w = "\<lparr>weight_skill = 0.5, weight_eval = 0.25, weight_recency = 0.25\<rparr>"
  let ?request = "\<lparr>job_id = ''job_001'', candidates = replicate 15 ?c, top_k = 5,
        weights = ?w\<rparr>"
  let ?none = "\<lparr>job_id = ''job_001'', candidates = [], top_k = 5,
        weights = \<lparr>weight_skill = 1, weight_eval = 1, weight_recency = 1\<rparr>\<rparr>"
  have v: "valid_MatchRequest ?request"
    by (simp add: valid_MatchRequest_def valid_Candidate_def valid_MatchWeights_def
        list_all_iff)
  have "map_sum id score (evaluate_candidate ?t ?c default_job_skills ?w) = Inr 42.5"
    by code_simp
  then obtain m where m: "evaluate_candidate ?t ?c default_job_skills ?w = Inr m"
    by (cases "evaluate_candidate ?t ?c default_job_skills ?w") auto
  have each: "\<forall>i<length (candidates ?request).
      \<exists>m. evaluate_candidate (now ?env i) (candidates ?request ! i)
             (case None of None \<Rightarrow> default_job_skills | Some js \<Rightarrow> js)
             (weights ?request) = Inr m"
    using m by (simp add: steady_def)
  have first: "\<exists>response. match_candidates ?env ?request None = Inr response \<and>
     length (matches response) = 5 \<and> total_candidates response = 15"
    using match_candidates_count [OF v, of ?env None] each by auto
  have v': "valid_MatchRequest ?none"
    by (simp add: valid_MatchRequest_def valid_MatchWeights_def)
  have second: "\<exists>response. match_candidates ?env ?none None = Inr response \<and>
     matches response = [] \<and> total_candidates response = 0"
    using match_candidates_count [OF v', of ?env None] by auto
  from first second show ?thesis by (rule conjI)
qed

text \<open>
  C5 as stated fails: this request is valid, its only candidate has the component scores
  100, 100 and 50 and with the weights \<open>1, 1, 1\<close> the weighted sum 250, and the ranking
  raises instead of returning \<open>min 5 1 = 1\<close> match.
\<close>

theorem match_candidates_raises:
  "valid_MatchRequest
       \<lparr>job_id = ''job_001'',
        candidates =
          [\<lparr>student_id = ''s1'', cand_skills = [(''python'', 5)], cand_eval_score = 100,
            recent_projects = []\<rparr>],
        top_k = 5,
        weights = \<lparr>weight_skill = 1, weight_eval = 1, weight_recency = 1\<rparr>\<rparr> \<and>
   levels_in_range [(''python'', 5)] \<and>
   match_candidates
       \<lparr>now = steady \<lparr>ordinal = 738900, microseconds = 0\<rparr>, time_start = 0, time_end = 1\<rparr>
       \<lparr>job_id = ''job_001'',
        candidates =
          [\<lparr>student_id = ''s1'', cand_skills = [(''python'', 5)], cand_eval_score = 100,
            recent_projects = []\<rparr>],
        top_k = 5,
        weights = \<lparr>weight_skill = 1, weight_eval = 1, weight_recency = 1\<rparr>\<rparr>
       (Some [''python'']) = Inl ValidationError"
  by code_simp

subsection \<open>Order of the matches and the default skills\<close>

text \<open>
  C6. When the ranking returns a response, its matches are in descending order of the
  overall score, and the sort is stable: the matches of the response with any one score
  \<open>s\<close> are, in the same order, the first of the evaluated candidates with the score
  \<open>s\<close>, where the evaluated candidates \<open>ms\<close> stand in the order of the candidates of
  the request. (The response holds the first \<open>top_k\<close> of the sorted list, so of the
  candidates with equal scores it holds the earliest of the request.)
\<close>

theorem match_candidates_stable_sort:
  assumes "match_candidates env request job_skills = Inr response"
  shows "sorted_wrt (\<lambda>a b. score b \<le> score a) (matches response) \<and>
         (\<exists>ms. evaluate_from env 0 (candidates request)
                 (case job_skills of None \<Rightarrow> default_job_skills | Some js \<Rightarrow> js)
                 (weights request) = Inr ms \<and>
               map match_student_id ms = map student_id (candidates request) \<and>
               (\<forall>s. prefix (filter (\<lambda>m. score m = s) (matches response))
                           (filter (\<lambda>m. score m = s) ms)))"
proof -
  let ?js = "case job_skills of None \<Rightarrow> default_job_skills | Some js \<Rightarrow> js"
  from assms obtain ms where
    ms: "evaluate_from env 0 (candidates request) ?js (weights request) = Inr ms" and
    r: "matches response = slice_to (sort_reverse score ms) (top_k request)"
    unfolding match_candidates_def Let_def by (auto split: sum.splits)
  obtain n where n: "matches response = take n (sort_reverse score ms)"
    using slice_to_take [of "sort_reverse score ms" "top_k request"] r by auto
  have sorted: "sorted_wrt (\<lambda>a b. score b \<le> score a) (matches response)"
    unfolding n by (rule sorted_wrt_take [OF sorted_sort_reverse])
  have stable: "prefix (filter (\<lambda>m. score m = s) (matches response))
                       (filter (\<lambda>m. score m = s) ms)" for s
    using prefix_filter_take [of "\<lambda>m. score m = s" n "sort_reverse score ms"]
    unfolding n stable_sort_reverse .
  show ?thesis
    using sorted ms evaluate_from_ids [OF ms] stable by auto
qed

text \<open>
  The theorem at a request of three candidates, where the first and the third have the
  score 50 and the second the score 52.5: the response lists the second, then the first,
  then the third.
\<close>

theorem match_candidates_stable_sort_witness:
  "map match_student_id (matches (projr (match_candidates
       \<lparr>now = steady \<lparr>ordinal = 738900, microseconds = 0\<rparr>, time_start = 0, time_end = 1\<rparr>
       \<lparr>job_id = ''job_001'',
        candidates =
          [\<lparr>student_id = ''s1'', cand_skills = [(''python'', 5)], cand_eval_score = 100,
            recent_projects = []\<rparr>,
           \<lparr>student_id = ''s2'', cand_skills = [(''sql'', 5), (''python'', 5)], cand_eval_score = 60,
            recent_projects = []\<rparr>,
           \<lparr>student_id = ''s3'', cand_skills = [(''sql'', 5)], cand_eval_score = 100,
            recent_projects = []\<rparr>],
        top_k = 10,
        weights = \<lparr>weight_skill = 0.5, weight_eval = 0.25, weight_recency = 0.25\<rparr>\<rparr>
       None))) = [''s2'', ''s1'', ''s3''] \<and>
   sorted_wrt (\<lambda>a b. score b \<le> score a) (matches (projr (match_candidates
       \<lparr>now = steady \<lparr>ordinal = 738900, microseconds = 0\<rparr>, time_start = 0, time_end = 1\<rparr>
       \<lparr>job_id = ''job_001'',
        candidates =
          [\<lparr>student_id = ''s1'', cand_skills = [(''python'', 5)], cand_eval_score = 100,
            recent_projects = []\<rparr>,
           \<lparr>student_id = ''s2'', cand_skills = [(''sql'', 5), (''python'', 5)], cand_eval_score = 60,
            recent_projects = []\<rparr>,
           \<lparr>student_id = ''s3'', cand_skills = [(''sql'', 5)], cand_eval_score = 100,
            recent_projects = []\<rparr>],
        top_k = 10,
        weights = \<lparr>weight_skill = 0.5, weight_eval = 0.25, weight_recency = 0.25\<rparr>\<rparr>
       None)))"
proof -
  let ?env = "\<lparr>now = steady \<lparr>ordinal = 738900, microseconds = 0\<rparr>, time_start = 0, time_end = 1\<rparr>"
  let ?request = "\<lparr>job_id = ''job_001'',
        candidates =
          [\<lparr>student_id = ''s1'', cand_skills = [(''python'', 5)], cand_eval_score = 100,
            recent_projects = []\<rparr>,
           \<lparr>student_id = ''s2'', cand_skills = [(''sql'', 5), (''python'', 5)], cand_eval_score = 60,
            recent_projects = []\<rparr>,
           \<lparr>student_id = ''s3'', cand_skills = [(''sql'', 5)], cand_eval_score = 100,
            recent_projects = []\<rparr>],
        top_k = 10,
        weights = \<lparr>weight_skill = 0.5, weight_eval = 0.25, weight_recency = 0.25\<rparr>\<rparr>"
  have ids: "map_sum id (\<lambda>r. map (\<lambda>m. (match_student_id m, score m)) (matches r))
               (match_candidates ?env ?request None)
             = Inr [(''s2'', 52.5), (''s1'', 50), (''s3'', 50)]"
    by code_simp
  then obtain response where r: "match_candidates ?env ?request None = Inr response"
    by (cases "match_candidates ?env ?request None") auto
  have "map match_student_id (matches response) = [''s2'', ''s1'', ''s3'']"
    using ids unfolding r by auto
  then show ?thesis
    using match_candidates_stable_sort [OF r] unfolding r by simp
qed

text \<open>
  C9. Called without a list of required skills, the ranking scores every candidate
  against the built-in list \<^verbatim>\<open>['python', 'machine learning', 'sql', 'communication']\<close>.
  The endpoint always calls it so; the \<open>job_id\<close> of the request reaches nothing but
  the field \<open>job_id\<close> of the response.
\<close>

theorem match_candidates_default_skills:
  "match_candidates env request None =
     match_candidates env request
       (Some [''python'', ''machine learning'', ''sql'', ''communication'']) \<and>
   api_match_candidates env request =
     (case evaluate_from env 0 (candidates request)
             [''python'', ''machine learning'', ''sql'', ''communication''] (weights request) of
        Inl e \<Rightarrow> Inl (HTTPException 500)
      | Inr ms \<Rightarrow>
          Inr \<lparr>response_job_id = job_id request,
               matches = slice_to (sort_reverse score ms) (top_k request),
               total_candidates = length (candidates request),
               processing_time_ms =
                 py_round2 (fmul (fsub (time_end env) (time_start env)) 1000)\<rparr>) \<and>
   map_sum id matches (api_match_candidates env (request\<lparr>job_id := other\<rparr>)) =
     map_sum id matches (api_match_candidates env request)"
  unfolding api_match_candidates_def match_candidates_def default_job_skills_def Let_def
  by (simp split: sum.splits)

text \<open>
  The theorem at a request for the job \<^verbatim>\<open>job_rust\<close>: a candidate with \<^verbatim>\<open>rust\<close> at
  level 5 has the skill score 0, a candidate with the four built-in skills at level 5
  has the skill score 100.
\<close>

theorem match_candidates_default_skills_witness:
  "map_sum id (\<lambda>r. map (\<lambda>m. (match_student_id m, skill_score m)) (matches r))
     (match_candidates
       \<lparr>now = steady \<lparr>ordinal = 738900, microseconds = 0\<rparr>, time_start = 0, time_end = 1\<rparr>
       \<lparr>job_id = ''job_rust'',
        candidates =
          [\<lparr>student_id = ''s1'', cand_skills = [(''rust'', 5)], cand_eval_score = 50,
            recent_projects = []\<rparr>,
           \<lparr>student_id = ''s2'',
            cand_skills = [(''python'', 5), (''machine learning'', 5), (''sql'', 5),
                           (''communication'', 5)],
            cand_eval_score = 50, recent_projects = []\<rparr>],
        top_k = 10,
        weights = \<lparr>weight_skill = 0.5, weight_eval = 0.25, weight_recency = 0.25\<rparr>\<rparr>
       None)
   = Inr [(''s2'', 100), (''s1'', 0)]"
proof -
  let ?env = "\<lparr>now = steady \<lparr>ordinal = 738900, microseconds = 0\<rparr>, time_start = 0, time_end = 1\<rparr>"
  let ?request = "\<lparr>job_id = ''job_rust'',
        candidates =
          [\<lparr>student_id = ''s1'', cand_skills = [(''rust'', 5)], cand_eval_score = 50,
            recent_projects = []\<rparr>,
           \<lparr>student_id = ''s2'',
            cand_skills = [(''python'', 5), (''machine learning'', 5), (''sql'', 5),
                           (''communication'', 5)],
            cand_eval_score = 50, recent_projects = []\<rparr>],
        top_k = 10,
        weights = \<lparr>weight_skill = 0.5, weight_eval = 0.25, weight_recency = 0.25\<rparr>\<rparr>"
  have "map_sum id (\<lambda>r. map (\<lambda>m. (match_student_id m, skill_score m)) (matches r))
     (match_candidates ?env ?request
        (Some [''python'', ''machine learning'', ''sql'', ''communication'']))
     = Inr [(''s2'', 100), (''s1'', 0)]"
    by code_simp
  moreover have "match_candidates ?env ?request None =
     match_candidates ?env ?request
       (Some [''python'', ''machine learning'', ''sql'', ''communication''])"
    using match_candidates_default_skills [of ?env ?request "''job_rust''"] by (rule conjunct1)
  ultimately show ?thesis by simp
qed

subsection \<open>Days between two dates\<close>

lemma days_between_same_day:
  assumes "valid_datetime t" and "microseconds d = 0" and "ordinal d = ordinal t"
  shows "days_between t d = 0"
  using assms unfolding days_between_def valid_datetime_def by simp

lemma days_between_future:
  assumes "valid_datetime t" and "microseconds d = 0" and "ordinal t < ordinal d"
  shows "days_between t d < 0"
proof -
  have "(ordinal t - ordinal d) * 86400000000 \<le> - 86400000000" using assms(3) by simp
  then have "(ordinal t - ordinal d) * 86400000000 + (microseconds t - microseconds d) < 0"
    using assms(1,2) unfolding valid_datetime_def by simp
  then show ?thesis unfolding days_between_def by (simp add: div_neg_pos_less0)
qed

lemma strptime_midnight: "strptime s = Inr d \<Longrightarrow> microseconds d = 0"
  unfolding strptime_def by (auto split: option.splits if_splits prod.splits)

lemma strptime_nonempty: "strptime s = Inr d \<Longrightarrow> s \<noteq> []"
  unfolding strptime_def by auto

subsection \<open>The recency score\<close>

text \<open>
  C7. A project has a completion date when the field is a string that is not empty
  (the test \<^verbatim>\<open>project.completion_date\<close> of the source). Without a project the recency
  score is 50. With one project whose date parses as \<^verbatim>\<open>YYYY-MM-DD\<close> and is the date of
  the current day, it is 100. With one project whose date does not parse, it is 50. A
  project without a completion date contributes 70. With at least one project the
  recency score is the arithmetic mean of what the projects contribute.
\<close>

theorem calculate_recency_score_cases:
  "calculate_recency_score t [] = 50 \<and>
   (valid_datetime t \<and> strptime s = Inr d \<and> ordinal d = ordinal t \<longrightarrow>
      days_between t d \<le> 30 \<and>
      calculate_recency_score t [p\<lparr>completion_date := Some s\<rparr>] = 100) \<and>
   (s \<noteq> [] \<and> strptime s = Inl e \<longrightarrow>
      calculate_recency_score t [p\<lparr>completion_date := Some s\<rparr>] = 50) \<and>
   (completion_date p = None \<or> completion_date p = Some [] \<longrightarrow> project_score t p = 70) \<and>
   (ps \<noteq> [] \<longrightarrow>
      calculate_recency_score t ps = sum_list (map (project_score t) ps) / real (length ps))"
proof -
  have today: "days_between t d \<le> 30 \<and>
      calculate_recency_score t [p\<lparr>completion_date := Some s\<rparr>] = 100"
    if "valid_datetime t" "strptime s = Inr d" "ordinal d = ordinal t"
  proof -
    have "days_between t d = 0"
      by (rule days_between_same_day [OF that(1) strptime_midnight [OF that(2)] that(3)])
    then show ?thesis
      using that(2) strptime_nonempty [OF that(2)]
      by (simp add: calculate_recency_score_def project_score_def recency_bucket_def)
  qed
  have unparsed: "calculate_recency_score t [p\<lparr>completion_date := Some s\<rparr>] = 50"
    if "s \<noteq> []" "strptime s = Inl e"
    using that by (simp add: calculate_recency_score_def project_score_def)
  have undated: "project_score t p = 70"
    if "completion_date p = None \<or> completion_date p = Some []"
    using that by (auto simp: project_score_def)
  show ?thesis
    using today unparsed undated calculate_recency_score_mean [of ps t]
    by (simp add: calculate_recency_score_def)
qed

text \<open>
  The theorem at noon of 15 January 2024: one project dated \<^verbatim>\<open>2024-01-15\<close> gives 100,
  one project dated \<^verbatim>\<open>not-a-date\<close> gives 50, a project without date contributes 70,
  and the three projects together give \<open>(100 + 50 + 70) / 3\<close>.
\<close>

theorem calculate_recency_score_cases_witness:
  "calculate_recency_score \<lparr>ordinal = 738900, microseconds = 43200000000\<rparr>
     [\<lparr>project_name = ''a'', description = None, technologies = [],
       completion_date = Some ''2024-01-15''\<rparr>] = 100 \<and>
   calculate_recency_score \<lparr>ordinal = 738900, microseconds = 43200000000\<rparr>
     [\<lparr>project_name = ''b'', description = None, technologies = [],
       completion_date = Some ''not-a-date''\<rparr>] = 50 \<and>
   project_score \<lparr>ordinal = 738900, microseconds = 43200000000\<rparr>
     \<lparr>project_name = ''c'', description = None, technologies = [],
      completion_date = None\<rparr> = 70 \<and>
   calculate_recency_score \<lparr>ordinal = 738900, microseconds = 43200000000\<rparr>
     [\<lparr>project_name = ''a'', description = None, technologies = [],
       completion_date = Some ''2024-01-15''\<rparr>,
      \<lparr>project_name = ''b'', description = None, technologies = [],
       completion_date = Some ''not-a-date''\<rparr>,
      \<lparr>project_name = ''c'', description = None, technologies = [],
       completion_date = None\<rparr>] = 220 / 3"
proof -
  let ?t = "\<lparr>ordinal = 738900, microseconds = 43200000000\<rparr>"
  let ?a = "\<lparr>project_name = ''a'', description = None, technologies = [],
       completion_date = Some ''2024-01-15''\<rparr>"
  let ?b = "\<lparr>project_name = ''b'', description = None, technologies = [],
       completion_date = Some ''not-a-date''\<rparr>"
  let ?c = "\<lparr>project_name = ''c'', description = None, technologies = [],
       completion_date = None\<rparr>"
  have t: "valid_datetime ?t" by (simp add: valid_datetime_def)
  have a: "strptime ''2024-01-15'' = Inr \<lparr>ordinal = 738900, microseconds = 0\<rparr>"
    by code_simp
  have b: "strptime ''not-a-date'' = Inl ValueError" by code_simp
  have scores: "map (project_score ?t) [?a, ?b, ?c] = [100, 50, 70]" by code_simp
  have 1: "calculate_recency_score ?t [?a] = 100"
    using calculate_recency_score_cases
      [of ?t "''2024-01-15''" "\<lparr>ordinal = 738900, microseconds = 0\<rparr>" ?a ValueError "[?a]"]
      t a by simp
  have 2: "calculate_recency_score ?t [?b] = 50"
    using calculate_recency_score_cases
      [of ?t "''not-a-date''" "\<lparr>ordinal = 738900, microseconds = 0\<rparr>" ?b ValueError "[?b]"]
      b by simp
  have 3: "project_score ?t ?c = 70 \<and> calculate_recency_score ?t [?a, ?b, ?c] = 220 / 3"
    using calculate_recency_score_cases
      [of ?t "''not-a-date''" "\<lparr>ordinal = 738900, microseconds = 0\<rparr>" ?c ValueError "[?a, ?b, ?c]"]
      scores by simp
  show ?thesis using 1 2 3 by simp
qed

text \<open>
  C10. A project whose completion date parses and lies after the current day has a
  negative number of elapsed days, falls into the first bucket and contributes 100, as
  a project completed on the current day does.
\<close>

theorem project_score_future:
  assumes "valid_datetime t" and "strptime s = Inr d" and "ordinal t < ordinal d"
  shows "days_between t d < 0 \<and>
         project_score t (p\<lparr>completion_date := Some s\<rparr>) = 100 \<and>
         calculate_recency_score t [p\<lparr>completion_date := Some s\<rparr>] = 100 \<and>
         recency_bucket (days_between t d) = recency_bucket 0"
proof -
  have neg: "days_between t d < 0"
    by (rule days_between_future [OF assms(1) strptime_midnight [OF assms(2)] assms(3)])
  then have bucket: "recency_bucket (days_between t d) = 100"
    by (simp add: recency_bucket_def)
  have one: "project_score t (p\<lparr>completion_date := Some s\<rparr>) = 100"
    using assms(2) strptime_nonempty [OF assms(2)] bucket by (simp add: project_score_def)
  show ?thesis
    using neg one bucket by (simp add: calculate_recency_score_def recency_bucket_def)
qed

text \<open>
  The theorem at noon of 15 January 2024 and a project dated 31 December 2030.
\<close>

theorem project_score_future_witness:
  "days_between \<lparr>ordinal = 738900, microseconds = 43200000000\<rparr>
       \<lparr>ordinal = 741442, microseconds = 0\<rparr> < 0 \<and>
   calculate_recency_score \<lparr>ordinal = 738900, microseconds = 43200000000\<rparr>
     [\<lparr>project_name = ''a'', description = None, technologies = [],
       completion_date = Some ''2030-12-31''\<rparr>] = 100"
proof -
  let ?t = "\<lparr>ordinal = 738900, microseconds = 43200000000\<rparr>"
  let ?a = "\<lparr>project_name = ''a'', description = None, technologies = [],
       completion_date = Some ''2030-12-31''\<rparr>"
  have t: "valid_datetime ?t" by (simp add: valid_datetime_def)
  have a: "strptime ''2030-12-31'' = Inr \<lparr>ordinal = 741442, microseconds = 0\<rparr>"
    by code_simp
  have l: "ordinal ?t < ordinal \<lparr>ordinal = 741442, microseconds = 0\<rparr>" by simp
  show ?thesis using project_score_future [OF t a l, of ?a] by simp
qed

subsection \<open>Searching in strings\<close>

lemma scan_contains: "0 < scan p prev k s \<Longrightarrow> contains p s"
proof (induction s arbitrary: prev k)
  case Nil
  then show ?case by simp
next
  case (Cons c cs)
  show ?case
  proof (cases "k = 0 \<and> match_here p prev (c # cs)")
    case True
    then have "prefix p (c # cs)" by (simp add: match_here_def)
    then show ?thesis by simp
  next
    case False
    with Cons.prems have "0 < scan p (Some c) (k - 1) cs" by auto
    then have "contains p cs" by (rule Cons.IH)
    then show ?thesis by simp
  qed
qed

lemma findall_count_contains: "0 < findall_count p s \<Longrightarrow> contains p s \<and> s \<noteq> []"
  unfolding findall_count_def using scan_contains [of p None 0 s] by (cases s) auto

lemma find_from_first:
  "contains sub s \<Longrightarrow>
     i \<le> find_from sub s i \<and> prefix sub (drop (nat (find_from sub s i - i)) s) \<and>
     (\<forall>j < nat (find_from sub s i - i). \<not> prefix sub (drop j s))"
proof (induction s arbitrary: i)
  case Nil
  then show ?case by simp
next
  case (Cons c cs)
  show ?case
  proof (cases "prefix sub (c # cs)")
    case True
    then show ?thesis by simp
  next
    case False
    with Cons.prems have "contains sub cs" by simp
    note IH = Cons.IH [OF this, of "i + 1"]
    define m where "m = nat (find_from sub cs (i + 1) - (i + 1))"
    have f: "find_from sub (c # cs) i = find_from sub cs (i + 1)" using False by simp
    have eq: "nat (find_from sub cs (i + 1) - i) = Suc m"
      using IH unfolding m_def by linarith
    have "\<not> prefix sub (drop j (c # cs))" if "j < Suc m" for j
    proof (cases j)
      case 0
      then show ?thesis using False by simp
    next
      case (Suc j')
      then show ?thesis using that IH unfolding m_def by simp
    qed
    then show ?thesis
      using IH unfolding f eq by (simp add: m_def)
  qed
qed

lemma find_str_first:
  "contains sub s \<Longrightarrow>
     0 \<le> find_str s sub \<and> prefix sub (drop (nat (find_str s sub)) s) \<and>
     (\<forall>j < nat (find_str s sub). \<not> prefix sub (drop j s))"
  unfolding find_str_def using find_from_first [of sub s 0] by simp

subsection \<open>The vocabularies and the weight of a skill\<close>

lemma technical_skills_lower: "s \<in> set technical_skills \<Longrightarrow> lower s = s"
proof -
  have "list_all (\<lambda>s. lower s = s) technical_skills" by code_simp
  then show "s \<in> set technical_skills \<Longrightarrow> lower s = s" by (simp add: list_all_iff)
qed

lemma soft_skills_lower: "s \<in> set soft_skills_vocabulary \<Longrightarrow> lower s = s"
proof -
  have "list_all (\<lambda>s. lower s = s) soft_skills_vocabulary" by code_simp
  then show "s \<in> set soft_skills_vocabulary \<Longrightarrow> lower s = s" by (simp add: list_all_iff)
qed

lemma seniority_keywords_lower: "k \<in> set (seniority_keywords level) \<Longrightarrow> lower k = k"
proof -
  have "list_all (\<lambda>l. list_all (\<lambda>s. lower s = s) (seniority_keywords l)) SeniorityLevel_members"
    by code_simp
  moreover have "level \<in> set SeniorityLevel_members"
    by (cases level) (simp_all add: SeniorityLevel_members_def)
  ultimately show "k \<in> set (seniority_keywords level) \<Longrightarrow> lower k = k"
    by (simp add: list_all_iff)
qed

lemma skill_weight_range: "0 \<le> skill_weight t s f \<and> skill_weight t s f \<le> 1"
  unfolding skill_weight_def Let_def by (simp add: min_def)

lemma new_Skill_weight:
  "new_Skill s (round2 (skill_weight t s f)) = Inr \<lparr>name = s, weight = round2 (skill_weight t s f)\<rparr>"
  using round2_in_0_1 [of "skill_weight t s f"] skill_weight_range [of t s f]
  by (simp add: new_Skill_def)

lemma found_skills_total: "\<exists>found. found_skills t vocabulary = Inr found"
proof (induction vocabulary)
  case Nil
  then show ?case by simp
next
  case (Cons s vocabulary)
  then show ?case by (auto simp: Let_def new_Skill_weight)
qed

lemma found_skills_none:
  "\<forall>s\<in>set vocabulary. findall_count (lower s) t = 0 \<Longrightarrow> found_skills t vocabulary = Inr []"
  by (induction vocabulary) simp_all

lemma findall_count_empty: "findall_count p [] = 0"
  by (simp add: findall_count_def)

subsection \<open>The section boost\<close>

text \<open>
  C3. For a term of the technical vocabulary with \<open>f \<ge> 1\<close> whole-word matches, the
  loop appends the term with its weight rounded, and the weight is the base weight
  \<open>min (0.1 + 0.1 * f) 1\<close> multiplied by 1.5 and capped at 1 exactly when the text
  contains \<^verbatim>\<open>requirements\<close>, \<^verbatim>\<open>required\<close> or \<^verbatim>\<open>must have\<close> and the term occurs (as a
  part of the string, the \<^verbatim>\<open>in\<close> of the source) within the boost window; otherwise it
  is the base weight.
\<close>

theorem skill_weight_section_boost:
  assumes "skill \<in> set technical_skills" and "1 \<le> findall_count skill jd_text"
  shows "skill_weight jd_text skill (findall_count skill jd_text) =
           (if (contains ''requirements'' jd_text \<or> contains ''required'' jd_text \<or>
                contains ''must have'' jd_text) \<and>
               contains skill (boost_window jd_text)
            then min (min (0.1 + 0.1 * real (findall_count skill jd_text)) 1 * 1.5) 1
            else min (0.1 + 0.1 * real (findall_count skill jd_text)) 1) \<and>
         found_skills jd_text [skill] =
           Inr [\<lparr>name = skill,
                 weight = round2 (skill_weight jd_text skill (findall_count skill jd_text))\<rparr>]"
proof -
  have f: "0 < findall_count skill jd_text" using assms(2) by simp
  have occurs: "contains skill jd_text" and nonempty: "jd_text \<noteq> []"
    using findall_count_contains [OF f] by simp_all
  have window: "slice_from jd_text (find_str jd_text ''requirements'') = boost_window jd_text"
    if "contains ''requirements'' jd_text"
    using find_str_first [OF that] that by (simp add: slice_from_def boost_window_def)
  have whole: "boost_window jd_text = jd_text" if "\<not> contains ''requirements'' jd_text"
    using that by (simp add: boost_window_def)
  have weight: "skill_weight jd_text skill (findall_count skill jd_text) =
           (if (contains ''requirements'' jd_text \<or> contains ''required'' jd_text \<or>
                contains ''must have'' jd_text) \<and>
               contains skill (boost_window jd_text)
            then min (min (0.1 + 0.1 * real (findall_count skill jd_text)) 1 * 1.5) 1
            else min (0.1 + 0.1 * real (findall_count skill jd_text)) 1)"
  proof (cases "contains ''requirements'' jd_text")
    case True
    then show ?thesis
      unfolding skill_weight_def Let_def sections_def
      by (simp add: window [OF True] mult.commute)
  next
    case False
    then show ?thesis
      unfolding skill_weight_def Let_def sections_def
      using occurs nonempty by (simp add: whole [OF False] mult.commute)
  qed
  have "found_skills jd_text [skill] =
           Inr [\<lparr>name = skill,
                 weight = round2 (skill_weight jd_text skill (findall_count skill jd_text))\<rparr>]"
    using f by (simp add: technical_skills_lower [OF assms(1)] Let_def new_Skill_weight)
  with weight show ?thesis by (rule conjI)
qed

text \<open>
  The theorem at the term \<^verbatim>\<open>java\<close> and a text whose only whole-word match of it
  stands before the word \<^verbatim>\<open>requirements\<close>, while the window contains
  \<^verbatim>\<open>javascript\<close>: the weight \<open>0.2\<close> is boosted to \<open>0.3\<close>.
\<close>

theorem skill_weight_section_boost_witness:
  "findall_count ''java'' ''java is nice. requirements: javascript'' = 1 \<and>
   boost_window ''java is nice. requirements: javascript'' = ''requirements: javascript'' \<and>
   found_skills ''java is nice. requirements: javascript'' [''java''] =
     Inr [\<lparr>name = ''java'', weight = 0.3\<rparr>]"
proof -
  let ?text = "''java is nice. requirements: javascript''"
  have v: "''java'' \<in> set technical_skills" by (simp add: technical_skills_def)
  have f: "findall_count ''java'' ?text = 1" by code_simp
  have w: "boost_window ?text = ''requirements: javascript''" by code_simp
  have r: "contains ''requirements'' ?text" by code_simp
  have c: "contains ''java'' ''requirements: javascript''" by code_simp
  have h: "1 \<le> findall_count ''java'' ?text" using f by simp
  note boost = skill_weight_section_boost [OF v h, unfolded f w]
  have A: "skill_weight ?text ''java'' 1 = 3 / 10"
    using boost [THEN conjunct1] r c by simp
  have B: "found_skills ?text [''java''] =
     Inr [\<lparr>name = ''java'', weight = round2 (skill_weight ?text ''java'' 1)\<rparr>]"
    by (rule boost [THEN conjunct2])
  have C: "round2 (3 / 10) = 3 / 10" by (simp add: round2_def round_half_even_def Let_def)
  have "found_skills ?text [''java''] = Inr [\<lparr>name = ''java'', weight = 0.3\<rparr>]"
    unfolding B A C by simp
  then show ?thesis using f w by simp
qed

subsection \<open>The first maximum\<close>

lemma max_from_first_maximum:
  "\<exists>pre post. best # xs = pre @ max_from key best xs # post \<and>
     (\<forall>x\<in>set pre. key x < key (max_from key best xs)) \<and>
     (\<forall>x\<in>set post. key x \<le> key (max_from key best xs))"
proof (induction xs arbitrary: best)
  case Nil
  show ?case by (intro exI [of _ "[]"]) simp
next
  case (Cons x xs)
  show ?case
  proof (cases "key best < key x")
    case True
    let ?r = "max_from key x xs"
    have r: "max_from key best (x # xs) = ?r" using True by simp
    from Cons.IH [of x] obtain pre post where
      split: "x # xs = pre @ ?r # post" and
      pre: "\<forall>y\<in>set pre. key y < key ?r" and post: "\<forall>y\<in>set post. key y \<le> key ?r"
      by blast
    have "x \<in> set (pre @ ?r # post)" unfolding split [symmetric] by simp
    then have "key x \<le> key ?r" using pre post by auto
    with True have "key best < key ?r" by simp
    with pre have "\<forall>y\<in>set (best # pre). key y < key ?r" by simp
    moreover have "best # x # xs = (best # pre) @ ?r # post" using split by simp
    ultimately show ?thesis unfolding r using post by blast
  next
    case False
    let ?r = "max_from key best xs"
    have r: "max_from key best (x # xs) = ?r" using False by simp
    from Cons.IH [of best] obtain pre post where
      split: "best # xs = pre @ ?r # post" and
      pre: "\<forall>y\<in>set pre. key y < key ?r" and post: "\<forall>y\<in>set post. key y \<le> key ?r"
      by blast
    show ?thesis
    proof (cases pre)
      case Nil
      have e: "best # xs = ?r # post" using split unfolding Nil append_Nil .
      have "key x \<le> key ?r" using False e by (metis list.inject not_less)
      then have "\<forall>y\<in>set (x # post). key y \<le> key ?r" using post by simp
      moreover have "best # x # xs = [] @ ?r # (x # post)" using e by (metis append_Nil list.inject)
      moreover have "\<forall>y\<in>set []. key y < key ?r" by simp
      ultimately show ?thesis unfolding r by blast
    next
      case (Cons b pre')
      have e: "best # xs = b # (pre' @ ?r # post)" using split unfolding Cons append_Cons .
      have b: "b = best" "xs = pre' @ ?r # post"
        using e by (metis list.inject)+
      have "key best < key ?r" using pre Cons b by simp
      then have "key x < key ?r" using False by simp
      then have "\<forall>y\<in>set (best # x # pre'). key y < key ?r" using pre Cons b by simp
      moreover have "best # x # xs = (best # x # pre') @ ?r # post" using b by simp
      ultimately show ?thesis unfolding r using post by blast
    qed
  qed
qed

lemma max_from_bounds:
  "max_from key best xs \<in> set (best # xs) \<and>
   (\<forall>x\<in>set (best # xs). key x \<le> key (max_from key best xs))"
proof -
  from max_from_first_maximum [of best xs key] obtain pre post where
    split: "best # xs = pre @ max_from key best xs # post" and
    pre: "\<forall>x\<in>set pre. key x < key (max_from key best xs)" and
    post: "\<forall>x\<in>set post. key x \<le> key (max_from key best xs)"
    by blast
  have "set (best # xs) = set pre \<union> {max_from key best xs} \<union> set post"
    unfolding split by auto
  then show ?thesis using pre post by (auto simp: less_imp_le)
qed

subsection \<open>Seniority and the extraction without a match\<close>

lemma SeniorityLevel_members_all: "level \<in> set SeniorityLevel_members"
  by (cases level) (simp_all add: SeniorityLevel_members_def)

lemma SeniorityLevel_members_distinct: "distinct SeniorityLevel_members"
  by (simp add: SeniorityLevel_members_def)

lemma takeWhile_before: "y \<notin> set xs \<Longrightarrow> takeWhile (\<lambda>x. x \<noteq> y) (xs @ y # ys) = xs"
  by (induction xs) auto

lemma determine_seniority_cases:
  "\<exists>level. determine_seniority text = Inr level \<and>
     (if \<forall>l. level_score text l = 0 then level = MID
      else (\<forall>l. level_score text l \<le> level_score text level) \<and>
           (\<forall>l\<in>set (takeWhile (\<lambda>x. x \<noteq> level) SeniorityLevel_members).
               level_score text l < level_score text level))"
proof -
  let ?f = "level_score text"
  let ?g = "\<lambda>l. (l, ?f l)"
  let ?rest = "[MID, SENIOR, LEAD, PRINCIPAL]"
  let ?scores = "seniority_scores text"
  define highest where "highest = max_from id (?f JUNIOR) (map ?f ?rest)"
  define item where "item = max_from snd (?g JUNIOR) (map ?g ?rest)"
  have scores: "?scores = ?g JUNIOR # map ?g ?rest"
    by (simp add: seniority_scores_def SeniorityLevel_members_def)
  have members: "map fst ?scores = SeniorityLevel_members"
    by (simp add: seniority_scores_def comp_def)
  have entry: "snd x = ?f (fst x)" if "x \<in> set ?scores" for x
    using that by (auto simp: seniority_scores_def)
  have every: "?g l \<in> set ?scores" for l
    using SeniorityLevel_members_all [of l] by (simp add: seniority_scores_def)
  have highest: "highest \<in> set (map snd ?scores) \<and> (\<forall>v\<in>set (map snd ?scores). v \<le> highest)"
    using max_from_bounds [of id "?f JUNIOR" "map ?f ?rest"] unfolding scores highest_def by simp
  have zero: "highest = 0 \<longleftrightarrow> (\<forall>l. ?f l = 0)"
  proof
    assume "highest = 0"
    then have "\<forall>v\<in>set (map snd ?scores). v = 0" using highest by auto
    then show "\<forall>l. ?f l = 0" using every by force
  next
    assume "\<forall>l. ?f l = 0"
    moreover from highest obtain x where "x \<in> set ?scores" "highest = snd x" by auto
    ultimately show "highest = 0" using entry by simp
  qed
  from max_from_first_maximum [of "?g JUNIOR" "map ?g ?rest" snd] obtain pre post where
    split: "?scores = pre @ item # post" and
    pre: "\<forall>x\<in>set pre. snd x < snd item" and post: "\<forall>x\<in>set post. snd x \<le> snd item"
    unfolding scores item_def by blast
  let ?level = "fst item"
  have item: "snd item = ?f ?level" using entry [of item] unfolding split by simp
  have greatest: "?f l \<le> ?f ?level" for l
  proof -
    have "?g l \<in> set pre \<union> {item} \<union> set post" using every [of l] unfolding split by auto
    then have "snd (?g l) \<le> snd item" using pre post by (auto simp: less_imp_le)
    then show ?thesis unfolding item by simp
  qed
  have names: "SeniorityLevel_members = map fst pre @ ?level # map fst post"
    unfolding members [symmetric] split by simp
  have "?level \<notin> set (map fst pre)"
    using SeniorityLevel_members_distinct unfolding names by auto
  then have before: "takeWhile (\<lambda>x. x \<noteq> ?level) SeniorityLevel_members = map fst pre"
    unfolding names by (rule takeWhile_before)
  have first: "?f l < ?f ?level" if "l \<in> set (map fst pre)" for l
  proof -
    from that obtain x where x: "x \<in> set pre" "fst x = l" by auto
    then have "x \<in> set ?scores" unfolding split by simp
    then have "snd x = ?f l" using entry x(2) by simp
    then show ?thesis using pre x(1) item by auto
  qed
  have result: "determine_seniority text = Inr (if highest = 0 then MID else ?level)"
    unfolding determine_seniority_def Let_def scores max_key_def highest_def item_def by simp
  show ?thesis
  proof (cases "\<forall>l. ?f l = 0")
    case True
    then have "highest = 0" using zero by blast
    then have "determine_seniority text = Inr MID" using result by simp
    then show ?thesis using True by simp
  next
    case False
    then have "highest \<noteq> 0" using zero by blast
    then have "determine_seniority text = Inr ?level" using result by simp
    moreover have "\<forall>l\<in>set (takeWhile (\<lambda>x. x \<noteq> ?level) SeniorityLevel_members).
                     ?f l < ?f ?level"
      unfolding before using first by blast
    ultimately show ?thesis using False greatest by auto
  qed
qed

lemma determine_seniority_none:
  assumes "\<forall>level. \<forall>keyword\<in>set (seniority_keywords level). findall_count keyword text = 0"
  shows "determine_seniority text = Inr MID"
proof -
  have "level_score text l = 0" for l
    unfolding level_score_def using assms seniority_keywords_lower [of _ l] by simp
  then show ?thesis using determine_seniority_cases [of "text"] by auto
qed

lemma extract_soft_skills_none:
  assumes "\<forall>term\<in>set soft_skills_vocabulary. findall_count term text = 0"
  shows "extract_soft_skills text = []"
  unfolding extract_soft_skills_def re_search_def using assms soft_skills_lower
  by (simp add: filter_empty_conv)

lemma extract_technical_skills_total: "\<exists>found. extract_technical_skills text = Inr found"
  unfolding extract_technical_skills_def
  using found_skills_total [of "text" technical_skills] by auto

lemma extract_technical_skills_none:
  assumes "\<forall>term\<in>set technical_skills. findall_count term text = 0"
  shows "extract_technical_skills text = Inr []"
proof -
  have "found_skills text technical_skills = Inr []"
    using assms technical_skills_lower by (intro found_skills_none) simp
  then show ?thesis
    by (simp add: extract_technical_skills_def slice_to_def sort_reverse_def)
qed

subsection \<open>Seniority tie-break and totality of the extraction\<close>

text \<open>
  C4 (amended). The total of a level is the number of whole-word matches of its trigger
  phrases. For every text a level is returned. When the total of every level is 0 it is
  \<^verbatim>\<open>mid\<close>. Otherwise it is a level with the greatest total, and every level before it in
  the enumeration order junior, mid, senior, lead, principal has a strictly smaller total:
  among tied levels the first one wins. In particular a text with the total 1 for junior
  and for senior and no total above 1 resolves to junior.
\<close>

theorem determine_seniority_first_highest:
  "\<exists>level. determine_seniority text = Inr level \<and>
     (if \<forall>l. level_score text l = 0 then level = MID
      else (\<forall>l. level_score text l \<le> level_score text level) \<and>
           (\<forall>l\<in>set (takeWhile (\<lambda>x. x \<noteq> level) SeniorityLevel_members).
               level_score text l < level_score text level)) \<and>
     (level_score text JUNIOR = 1 \<and> level_score text SENIOR = 1 \<and>
      level_score text MID \<le> 1 \<and> level_score text LEAD \<le> 1 \<and>
      level_score text PRINCIPAL \<le> 1 \<longrightarrow> level = JUNIOR)"
proof -
  from determine_seniority_cases [of "text"] obtain level where
    level: "determine_seniority text = Inr level" and
    cases: "if \<forall>l. level_score text l = 0 then level = MID
      else (\<forall>l. level_score text l \<le> level_score text level) \<and>
           (\<forall>l\<in>set (takeWhile (\<lambda>x. x \<noteq> level) SeniorityLevel_members).
               level_score text l < level_score text level)"
    by blast
  have "level = JUNIOR"
    if one: "level_score text JUNIOR = 1" "level_score text SENIOR = 1"
      "level_score text MID \<le> 1" "level_score text LEAD \<le> 1" "level_score text PRINCIPAL \<le> 1"
  proof (rule ccontr)
    assume other: "level \<noteq> JUNIOR"
    have "\<not> (\<forall>l. level_score text l = 0)" using one(1) by (metis zero_neq_one)
    with cases have
      before: "\<forall>l\<in>set (takeWhile (\<lambda>x. x \<noteq> level) SeniorityLevel_members).
               level_score text l < level_score text level"
      by simp
    have "JUNIOR \<in> set (takeWhile (\<lambda>x. x \<noteq> level) SeniorityLevel_members)"
      using other by (simp add: SeniorityLevel_members_def)
    with before have "level_score text JUNIOR < level_score text level" by blast
    moreover have "level_score text level \<le> 1" using one by (cases level) simp_all
    ultimately show False using one(1) by simp
  qed
  with level cases show ?thesis by blast
qed

text \<open>
  The theorem at a text with one trigger of junior and one of senior: the totals are
  1, 0, 1, 0, 0 and the level is junior.
\<close>

theorem determine_seniority_first_highest_witness:
  "map (level_score ''junior or senior developer'') SeniorityLevel_members = [1, 0, 1, 0, 0] \<and>
   determine_seniority ''junior or senior developer'' = Inr JUNIOR"
proof -
  let ?text = "''junior or senior developer''"
  have totals: "map (level_score ?text) SeniorityLevel_members = [1, 0, 1, 0, 0]"
    by code_simp
  then have one: "level_score ?text JUNIOR = 1 \<and> level_score ?text SENIOR = 1 \<and>
      level_score ?text MID \<le> 1 \<and> level_score ?text LEAD \<le> 1 \<and>
      level_score ?text PRINCIPAL \<le> 1"
    by (simp add: SeniorityLevel_members_def)
  from determine_seniority_first_highest [of ?text] one
  have "determine_seniority ?text = Inr JUNIOR" by blast
  with totals show ?thesis by (rule conjI)
qed

text \<open>
  C4 as stated fails: in this text no trigger phrase occurs, so all five levels are tied
  with the total 0 and the first level of the enumeration is junior, yet the level
  returned is mid.
\<close>

theorem determine_seniority_all_tied:
  "seniority_scores ''we hire developers'' =
     [(JUNIOR, 0), (MID, 0), (SENIOR, 0), (LEAD, 0), (PRINCIPAL, 0)] \<and>
   determine_seniority ''we hire developers'' = Inr MID"
  by code_simp

text \<open>
  C8. The extraction returns a response for every request. When the lower-cased text has
  no whole-word match of a technical term, of a soft-skill term and of a trigger phrase
  --- as the empty text has none --- the skills and the soft skills are empty and the
  seniority is \<^verbatim>\<open>mid\<close>.
\<close>

theorem parse_jd_total:
  "\<exists>response. parse_jd request = Inr response \<and>
     parsed_job_id response = parse_job_id request \<and>
     ((\<forall>t\<in>set technical_skills. findall_count t (lower (job_description request)) = 0) \<and>
      (\<forall>t\<in>set soft_skills_vocabulary.
          findall_count t (lower (job_description request)) = 0) \<and>
      (\<forall>level. \<forall>keyword\<in>set (seniority_keywords level).
          findall_count keyword (lower (job_description request)) = 0) \<longrightarrow>
      skills response = [] \<and> soft_skills response = [] \<and> seniority_hint response = MID) \<and>
     (job_description request = [] \<longrightarrow>
      skills response = [] \<and> soft_skills response = [] \<and> seniority_hint response = MID)"
proof -
  let ?jd = "lower (job_description request)"
  obtain technical where technical: "extract_technical_skills ?jd = Inr technical"
    using extract_technical_skills_total by blast
  obtain seniority where seniority: "determine_seniority ?jd = Inr seniority"
    using determine_seniority_cases [of ?jd] by blast
  let ?response = "\<lparr>skills = technical, soft_skills = extract_soft_skills ?jd,
      seniority_hint = seniority, parsed_job_id = parse_job_id request\<rparr>"
  have response: "parse_jd request = Inr ?response"
    by (simp add: parse_jd_def Let_def technical seniority)
  have none: "technical = [] \<and> extract_soft_skills ?jd = [] \<and> seniority = MID"
    if "\<forall>t\<in>set technical_skills. findall_count t ?jd = 0"
      "\<forall>t\<in>set soft_skills_vocabulary. findall_count t ?jd = 0"
      "\<forall>level. \<forall>keyword\<in>set (seniority_keywords level). findall_count keyword ?jd = 0"
    using extract_technical_skills_none [OF that(1)] extract_soft_skills_none [OF that(2)]
      determine_seniority_none [OF that(3)] technical seniority
    by simp
  have empty: "technical = [] \<and> extract_soft_skills ?jd = [] \<and> seniority = MID"
    if "job_description request = []"
    using that none by (simp add: lower_def findall_count_empty)
  show ?thesis
    unfolding response using none empty by simp
qed

text \<open>
  The theorem at a text that is not empty and has no match, and at the empty text.
\<close>

theorem parse_jd_total_witness:
  "parse_jd \<lparr>job_description = ''We hire people.'', parse_job_id = Some ''job_7''\<rparr> =
     Inr \<lparr>skills = [], soft_skills = [], seniority_hint = MID, parsed_job_id = Some ''job_7''\<rparr> \<and>
   parse_jd \<lparr>job_description = '''', parse_job_id = None\<rparr> =
     Inr \<lparr>skills = [], soft_skills = [], seniority_hint = MID, parsed_job_id = None\<rparr>"
proof -
  let ?a = "\<lparr>job_description = ''We hire people.'', parse_job_id = Some ''job_7''\<rparr>"
  let ?b = "\<lparr>job_description = '''', parse_job_id = None\<rparr>"
  have "list_all (\<lambda>t. findall_count t (lower ''We hire people.'') = 0) technical_skills"
    by code_simp
  then have 1: "\<forall>t\<in>set technical_skills. findall_count t (lower (job_description ?a)) = 0"
    by (simp add: list_all_iff)
  have "list_all (\<lambda>t. findall_count t (lower ''We hire people.'') = 0) soft_skills_vocabulary"
    by code_simp
  then have 2: "\<forall>t\<in>set soft_skills_vocabulary. findall_count t (lower (job_description ?a)) = 0"
    by (simp add: list_all_iff)
  have "list_all (\<lambda>level. list_all (\<lambda>k. findall_count k (lower ''We hire people.'') = 0)
           (seniority_keywords level)) SeniorityLevel_members"
    by code_simp
  then have 3: "\<forall>level. \<forall>keyword\<in>set (seniority_keywords level).
          findall_count keyword (lower (job_description ?a)) = 0"
    using SeniorityLevel_members_all by (simp add: list_all_iff)
  from parse_jd_total [of ?a] 1 2 3
  have a: "parse_jd ?a =
     Inr \<lparr>skills = [], soft_skills = [], seniority_hint = MID, parsed_job_id = Some ''job_7''\<rparr>"
    by auto
  from parse_jd_total [of ?b]
  have b: "parse_jd ?b =
     Inr \<lparr>skills = [], soft_skills = [], seniority_hint = MID, parsed_job_id = None\<rparr>"
    by auto
  from a b show ?thesis by (rule conjI)
qed

subsection \<open>The alias match\<close>

lemma alias_match_first:
  "find (\<lambda>alias. map_of d alias \<noteq> None) aliases = Some a \<Longrightarrow> map_of d a = Some level \<Longrightarrow>
     alias_match aliases d = Some (level * 0.8)"
  by (induction aliases) (auto split: if_splits)

lemma matched_skills_empty:
  "filter (\<lambda>s. s \<in> set (map fst d)) xs = [] \<longleftrightarrow> (\<forall>s\<in>set xs. map_of d s = None)"
  by (simp add: filter_empty_conv map_of_eq_None_iff)

text \<open>
  C1 (amended). For every candidate whose skill map is not empty and every list of
  required skills that is not empty: when no required skill is, lower-cased, a key of
  the lower-cased skill map, the skill score is 0 and no alias contributes. When at
  least one is, each required skill that is not such a key but is a canonical term of
  the alias table with an alias among the keys contributes \<open>level alias * 0.8\<close> to the
  sum of the skill score, where the alias is the first one of the alias list, in its
  declared order, that is a key; the score is 100 times the sum divided by 5 times the
  number of distinct required skills.
\<close>

theorem alias_contribution:
  assumes "candidate_skills \<noteq> []"
    and "r \<in> set job_skills"
    and "map_of (lower_keys candidate_skills) (lower r) = None"
    and "map_of skill_mappings (lower r) = Some aliases"
    and "find (\<lambda>a. map_of (lower_keys candidate_skills) a \<noteq> None) aliases = Some alias"
    and "map_of (lower_keys candidate_skills) alias = Some level"
  shows "skill_contribution (lower_keys candidate_skills) (lower r) = level * 0.8 \<and>
         calculate_skill_score candidate_skills job_skills =
           (if \<exists>s\<in>set job_skills. map_of (lower_keys candidate_skills) (lower s) \<noteq> None
            then (level * 0.8 +
                  sum_list (map (skill_contribution (lower_keys candidate_skills))
                              (remove1 (lower r) (remdups (map lower job_skills)))))
                 / (5 * real (length (remdups (map lower job_skills)))) * 100
            else 0)"
proof -
  let ?d = "lower_keys candidate_skills"
  let ?xs = "remdups (map lower job_skills)"
  have contribution: "skill_contribution ?d (lower r) = level * 0.8"
    unfolding skill_contribution_def find_partial_skill_match_def
    by (simp add: assms(3,4) alias_match_first [OF assms(5,6)])
  have r: "lower r \<in> set ?xs" using assms(2) by simp
  have sum: "sum_list (map (skill_contribution ?d) ?xs) =
     level * 0.8 + sum_list (map (skill_contribution ?d) (remove1 (lower r) ?xs))"
    using sum_list_map_remove1 [OF r, of "skill_contribution ?d"] contribution by simp
  have nonempty: "job_skills \<noteq> []" "0 < real (length ?xs)"
    using assms(2) r by (auto simp: length_greater_0_conv [symmetric] simp del: length_greater_0_conv)
  have guard: "filter (\<lambda>s. s \<in> set (map fst ?d)) ?xs = [] \<longleftrightarrow>
     \<not> (\<exists>s\<in>set job_skills. map_of ?d (lower s) \<noteq> None)"
    unfolding matched_skills_empty by simp
  have "calculate_skill_score candidate_skills job_skills =
           (if \<exists>s\<in>set job_skills. map_of ?d (lower s) \<noteq> None
            then (level * 0.8 + sum_list (map (skill_contribution ?d) (remove1 (lower r) ?xs)))
                 / (5 * real (length ?xs)) * 100
            else 0)"
    unfolding calculate_skill_score_def Let_def guard fold_skill_step
    using assms(1) nonempty by (simp add: sum)
  with contribution show ?thesis by (rule conjI)
qed

text \<open>
  The theorem at a candidate with \<^verbatim>\<open>python\<close> at level 4, \<^verbatim>\<open>ai\<close> at level 5 and \<^verbatim>\<open>ml\<close>
  at level 2, against \<^verbatim>\<open>Python\<close> and \<^verbatim>\<open>Machine Learning\<close>: the first alias of
  \<^verbatim>\<open>machine learning\<close> among the keys is \<^verbatim>\<open>ml\<close>, so the contribution is \<open>2 * 0.8\<close>
  and not \<open>5 * 0.8\<close>, and the score is \<open>100 * (1.6 + 4) / 10\<close>.
\<close>

theorem alias_contribution_witness:
  "skill_contribution (lower_keys [(''python'', 4), (''ai'', 5), (''ml'', 2)])
     ''machine learning'' = 1.6 \<and>
   calculate_skill_score [(''python'', 4), (''ai'', 5), (''ml'', 2)]
     [''Python'', ''Machine Learning''] = 56"
proof -
  let ?c = "[(''python'', 4), (''ai'', 5), (''ml'', 2 :: real)]"
  let ?js = "[''Python'', ''Machine Learning'']"
  have d: "lower_keys ?c = ?c" by code_simp
  have l: "lower ''Machine Learning'' = ''machine learning''" "lower ''Python'' = ''python''"
    by code_simp+
  have 1: "?c \<noteq> []" by simp
  have 2: "''Machine Learning'' \<in> set ?js" by simp
  have 3: "map_of (lower_keys ?c) (lower ''Machine Learning'') = None"
    unfolding d l by simp
  have 4: "map_of skill_mappings (lower ''Machine Learning'') =
             Some [''ml'', ''ai'', ''artificial intelligence'']"
    unfolding l by (simp add: skill_mappings_def)
  have 5: "find (\<lambda>a. map_of (lower_keys ?c) a \<noteq> None)
             [''ml'', ''ai'', ''artificial intelligence''] = Some ''ml''"
    unfolding d by simp
  have 6: "map_of (lower_keys ?c) ''ml'' = Some 2" unfolding d by simp
  have direct: "\<exists>s\<in>set ?js. map_of (lower_keys ?c) (lower s) \<noteq> None"
    unfolding d by (simp add: l)
  have rest: "remove1 (lower ''Machine Learning'') (remdups (map lower ?js)) = [''python'']"
    by (simp add: l)
  have python: "skill_contribution ?c ''python'' = 4" by (simp add: skill_contribution_def)
  have n: "length (remdups (map lower ?js)) = 2" by (simp add: l)
  note inst = alias_contribution [OF 1 2 3 4 5 6]
  have A: "skill_contribution (lower_keys ?c) ''machine learning'' = 1.6"
    using inst [THEN conjunct1] unfolding l by simp
  have B: "calculate_skill_score ?c ?js = 56"
    unfolding inst [THEN conjunct2] if_P [OF direct] rest n unfolding d by (simp add: python)
  from A B show ?thesis by (rule conjI)
qed

text \<open>
  C1 as stated fails: the skill map of this candidate is not empty, the required skill
  \<^verbatim>\<open>machine learning\<close> is not a key of it, it is a canonical term of the alias table and
  its alias \<^verbatim>\<open>ml\<close> is a key with the level 5; the claim adds \<open>5 * 0.8 = 4\<close> to the sum of
  the skill score, which makes the score 80, and the code returns 0, since no required
  skill is a key.
\<close>

theorem alias_without_direct_match:
  "map_of (lower_keys [(''ml'', 5 :: real)]) ''machine learning'' = None \<and>
   map_of skill_mappings ''machine learning'' = Some [''ml'', ''ai'', ''artificial intelligence''] \<and>
   map_of (lower_keys [(''ml'', 5 :: real)]) ''ml'' = Some 5 \<and>
   find_partial_skill_match ''machine learning'' (lower_keys [(''ml'', 5)]) = 4 \<and>
   calculate_skill_score [(''ml'', 5)] [''machine learning''] = 0"
  by code_simp

end
